theory Spec2Isabelle
  imports Main "HOL-Library.Word" "HOL-Library.AList"
begin

section \<open>Buffer marshaling (RedirectedFunctions.cpp, anonymous namespace)\<close>

text \<open>
  The handlers are templates over the character type \<open>TChar\<close> (\<open>char\<close> or
  \<open>wchar_t\<close>). The model is polymorphic in a character type \<open>'c\<close> with a zero
  character; \<open>char8\<close> and \<open>char16\<close> are the two instances the source compiles.

  A pointer to characters is a value of type \<open>'c list option\<close>: \<open>None\<close> is the
  null pointer, \<open>Some m\<close> the characters stored from the pointed-to address on.
  A size that travels with a pointer (\<open>dstSize\<close>, \<open>srcSize\<close>, \<open>nSize\<close>) must
  not exceed the length of \<open>m\<close>: C leaves the access undefined otherwise, and the
  theorems below carry that requirement as a hypothesis.
\<close>

type_synonym char8 = "8 word"
type_synonym char16 = "16 word"

datatype HRESULT = S_OK | STRSAFE_E_INSUFFICIENT_BUFFER | STRSAFE_E_INVALID_PARAMETER

definition STRSAFE_MAX_CCH :: nat where
  "STRSAFE_MAX_CCH = 2147483647"

text \<open>
  The text of a zero-terminated string stored at a pointer: the characters before the
  first zero (a memory image without a zero is followed by its terminator).
\<close>

definition c_str :: "'c::zero list \<Rightarrow> 'c list" where
  "c_str m = takeWhile (\<lambda>c. c \<noteq> 0) m"

text \<open>
  \<open>StringCchLengthA\<close>/\<open>StringCchLengthW\<close> of the platform's \<open>strsafe.h\<close>: the
  length of the string if a terminator is found within the first \<open>cchMax\<close>
  characters; otherwise (and for \<open>cchMax\<close> above \<open>STRSAFE_MAX_CCH\<close>) the call fails
  and the length is set to 0.
\<close>

definition StringCchLength :: "'c::zero list \<Rightarrow> nat \<Rightarrow> HRESULT \<times> nat" where
  "StringCchLength psz cchMax =
     (if cchMax > STRSAFE_MAX_CCH then (STRSAFE_E_INVALID_PARAMETER, 0)
      else if length (c_str psz) < cchMax then (S_OK, length (c_str psz))
      else (STRSAFE_E_INVALID_PARAMETER, 0))"

text \<open>\<open>StringLength(length, src, srcMaxSize)\<close>: returns the result code and \<open>length\<close>.\<close>

definition StringLength :: "'c::zero list option \<Rightarrow> nat \<Rightarrow> HRESULT \<times> nat" where
  "StringLength src srcMaxSize =
     (case src of
        Some s \<Rightarrow> StringCchLength s srcMaxSize
      | None \<Rightarrow> (STRSAFE_E_INVALID_PARAMETER, 0))"

text \<open>\<open>std::memset(dst, 0, n * sizeof(TChar))\<close> and \<open>std::memcpy(dst, src, n * sizeof(TChar))\<close>.\<close>

definition memset0 :: "'c::zero list \<Rightarrow> nat \<Rightarrow> 'c list" where
  "memset0 dst n = replicate n 0 @ drop n dst"

definition memcpy :: "'c list \<Rightarrow> 'c list \<Rightarrow> nat \<Rightarrow> 'c list" where
  "memcpy dst src n = take n src @ drop n dst"

text \<open>
  \<open>StringCopyBuffer(dst, dstSize, src, srcSize, &copiedSize)\<close>: returns the result
  code, the destination memory after the call and \<open>copiedSize\<close>. The trace output of
  the scope guard has no effect on the result and is left out.
\<close>

definition StringCopyBuffer ::
  "'c::zero list option \<Rightarrow> nat \<Rightarrow> 'c list option \<Rightarrow> nat \<Rightarrow> HRESULT \<times> 'c list option \<times> nat" where
  "StringCopyBuffer dst dstSize src srcSize =
     (case (dst, src) of
        (Some d, Some s) \<Rightarrow>
          (let d0 = memset0 d dstSize;
               copySize = min dstSize srcSize
           in if copySize = 0 then (S_OK, Some d0, 0)
              else
                (let d1 = memcpy d0 s copySize
                 in if dstSize > srcSize then (S_OK, Some (d1[srcSize := 0]), copySize)
                    else if dstSize = srcSize \<and> d1 ! (dstSize - 1) = 0 then (S_OK, Some d1, copySize)
                    else (STRSAFE_E_INSUFFICIENT_BUFFER, Some (d1[copySize - 1 := 0]), copySize)))
      | _ \<Rightarrow> (STRSAFE_E_INVALID_PARAMETER, dst, 0))"

section \<open>The cached documents and the redirector\<close>

text \<open>\<open>kxf::String\<close>, the canonical text of the cache: a sequence of 16-bit code units.\<close>

type_synonym kxString = "char16 list"

text \<open>
  Modelled from the spec: the class \<open>INIWrapper\<close> is not among the sources. After
  section 3 of the specification a document maps sections to an ordered key-value
  mapping: a list of sections, each with the list of its keys and values.
\<close>

type_synonym INIWrapper = "(kxString \<times> (kxString \<times> kxString) list) list"

text \<open>
  Modelled from the spec: \<open>INIWrapper::GetSectionNames\<close> is not among the sources
  (section 6): the names of the sections, in the order of the document.
\<close>

definition GetSectionNames :: "INIWrapper \<Rightarrow> kxString list" where
  "GetSectionNames ini = map fst ini"

text \<open>
  Modelled from the spec: \<open>INIWrapper::GetKeyNames\<close> is not among the sources
  (section 6): the names of the keys of a section, in order; none for a section that
  is not there.
\<close>

definition GetKeyNames :: "INIWrapper \<Rightarrow> kxString \<Rightarrow> kxString list" where
  "GetKeyNames ini section = (case map_of ini section of None \<Rightarrow> [] | Some kvs \<Rightarrow> map fst kvs)"

text \<open>
  Modelled from the spec: \<open>INIWrapper::QueryValue\<close> is not among the sources
  (sections 4.6 and 6): the value stored for (section, key), if there is one.
\<close>

definition QueryValue :: "INIWrapper \<Rightarrow> kxString \<Rightarrow> kxString \<Rightarrow> kxString option" where
  "QueryValue ini section key =
     (case map_of ini section of None \<Rightarrow> None | Some kvs \<Rightarrow> map_of kvs key)"

text \<open>
  Modelled from the spec: \<open>INIWrapper::SetValue\<close> is not among the sources
  (section 4.6): it sets (section, key) to the value; a value identical to the stored
  one is reported through \<open>isSameData\<close> and changes nothing. The result is
  (success, \<open>isSameData\<close>, new document).
\<close>

definition SetValue ::
  "INIWrapper \<Rightarrow> kxString \<Rightarrow> kxString \<Rightarrow> kxString \<Rightarrow> bool \<times> bool \<times> INIWrapper" where
  "SetValue ini section key v =
     (if QueryValue ini section key = Some v then (True, True, ini)
      else (True, False,
            AList.update section
              (AList.update key v (case map_of ini section of None \<Rightarrow> [] | Some kvs \<Rightarrow> kvs)) ini))"

text \<open>
  Modelled from the spec: \<open>INIWrapper::DeleteSection\<close> is not among the sources
  (section 4.6): it removes the section with all its keys; a structural change being
  what marks the entry dirty, it reports whether the section was there. The result is
  (deleted, new document).
\<close>

definition DeleteSection :: "INIWrapper \<Rightarrow> kxString \<Rightarrow> bool \<times> INIWrapper" where
  "DeleteSection ini section =
     (case map_of ini section of
        None \<Rightarrow> (False, ini)
      | Some kvs \<Rightarrow> (True, AList.delete section ini))"

text \<open>
  Modelled from the spec: \<open>INIWrapper::DeleteKey\<close> is not among the sources
  (section 4.6): it removes that single key from the section and reports whether the
  key was there. The result is (deleted, new document).
\<close>

definition DeleteKey :: "INIWrapper \<Rightarrow> kxString \<Rightarrow> kxString \<Rightarrow> bool \<times> INIWrapper" where
  "DeleteKey ini section key =
     (case map_of ini section of
        None \<Rightarrow> (False, ini)
      | Some kvs \<Rightarrow>
          (case map_of kvs key of
             None \<Rightarrow> (False, ini)
           | Some v \<Rightarrow> (True, AList.update section (AList.delete key kvs) ini)))"

text \<open>
  Modelled from the spec: \<open>INIWrapper::CreateZSSTRZZ\<close> is not among the sources
  (section 4.1, list-building): each item is followed by a zero and the list by one
  extra zero; an item whose addition would overflow the capacity stops the enumeration
  and sets the truncated flag; the list built so far is returned with the number of
  items in it. The callback yields the text to append (\<open>Continue\<close>) or \<open>None\<close>
  (\<open>Discard\<close>). The result is (list, truncated, count).
\<close>

fun CreateZSSTRZZ_items ::
  "(kxString \<Rightarrow> 'c list option) \<Rightarrow> kxString list \<Rightarrow> nat \<Rightarrow> 'c::zero list \<Rightarrow> nat
     \<Rightarrow> 'c list \<times> bool \<times> nat" where
  "CreateZSSTRZZ_items func [] maxSize buffer count = (buffer, False, count)"
| "CreateZSSTRZZ_items func (item # items) maxSize buffer count =
     (case func item of
        None \<Rightarrow> CreateZSSTRZZ_items func items maxSize buffer count
      | Some text \<Rightarrow>
          if length buffer + length text + 2 > maxSize then (buffer, True, count)
          else CreateZSSTRZZ_items func items maxSize (buffer @ text @ [0]) (count + 1))"

text \<open>
  Modelled from the spec: \<open>INIWrapper::CreateZSSTRZZ\<close> is not among the sources
  (section 4.1): the items that fit, and the extra zero that ends the list.
\<close>

definition CreateZSSTRZZ ::
  "(kxString \<Rightarrow> 'c list option) \<Rightarrow> kxString list \<Rightarrow> nat \<Rightarrow> 'c::zero list \<times> bool \<times> nat" where
  "CreateZSSTRZZ func items maxSize =
     (case CreateZSSTRZZ_items func items maxSize [] 0 of
        (buffer, truncated, count) \<Rightarrow> (buffer @ [0], truncated, count))"

text \<open>The cache entry (\<open>INIObject\<close> of the header, \<open>ConfigObject\<close> in the handlers).\<close>

record ConfigObject =
  m_INI :: INIWrapper
  m_Path :: kxString
  m_IsChanged :: bool
  m_ExistOnDisk :: bool

text \<open>
  Modelled from the spec: the enumeration \<open>RedirectorOption\<close> is not among the
  sources; the handlers name \<open>NativeWrite\<close> and (in a comment) \<open>WriteProtected\<close>,
  section 3 of the specification the two save policies.
\<close>

datatype RedirectorOption = SaveOnWrite | SaveOnThreadDetach | NativeWrite | WriteProtected

text \<open>
  What lies outside the repository is a parameter of the model: the encoding converter
  behind \<open>INIWrapper::EncodingTo\<close> and \<open>INIWrapper::EncodingFrom\<close>, the converting
  constructor of \<open>kxf::String\<close> (the set-value path hands \<open>appName\<close> and
  \<open>keyName\<close> to \<open>SetValue\<close> as they are), \<open>kxf::String::ToInteger\<close>, the
  normalisation of paths, reading and writing a file, and the original
  \<open>WritePrivateProfileString\<close> behind \<open>InvokeTarget\<close>.
\<close>

record 'c Collaborators =
  EncodingTo :: "'c list \<Rightarrow> kxString"
  EncodingFrom :: "kxString \<Rightarrow> 'c list"
  ToString :: "'c list \<Rightarrow> kxString"
  ToInteger :: "kxString \<Rightarrow> 32 word option"
  NormalizePath :: "kxString \<Rightarrow> kxString"
  LoadINI :: "kxString \<Rightarrow> INIWrapper option"
  SaveINI :: "kxString \<Rightarrow> INIWrapper \<Rightarrow> bool"
  InvokeTarget :: "'c list option \<Rightarrow> 'c list option \<Rightarrow> 'c list option \<Rightarrow> 'c list option \<Rightarrow> bool"

text \<open>
  The redirector: the path-keyed cache, the options, the calling thread's last error
  code, and the two effects that leave the process, the files saved and the calls of
  the original API, each as a log. The locks are left out: the model is sequential.
\<close>

record 'c RedirectorInterface =
  m_INIMap :: "kxString \<rightharpoonup> ConfigObject"
  m_Options :: "RedirectorOption set"
  LastError :: nat
  SavedFiles :: "(kxString \<times> INIWrapper) list"
  NativeCalls :: "('c list option \<times> 'c list option \<times> 'c list option \<times> 'c list option) list"

definition ERROR_FILE_NOT_FOUND :: nat where
  "ERROR_FILE_NOT_FOUND = 2"

definition ERROR_INVALID_PARAMETER :: nat where
  "ERROR_INVALID_PARAMETER = 87"

definition ERROR_INSUFFICIENT_BUFFER :: nat where
  "ERROR_INSUFFICIENT_BUFFER = 122"

definition SetLastError :: "'c RedirectorInterface \<Rightarrow> nat \<Rightarrow> 'c RedirectorInterface" where
  "SetLastError st e = st\<lparr>LastError := e\<rparr>"

text \<open>
  Modelled from the spec: \<open>RedirectorInterface::IsOptionEnabled\<close> is not among
  the sources (section 3, the global policy booleans).
\<close>

definition IsOptionEnabled :: "'c RedirectorInterface \<Rightarrow> RedirectorOption \<Rightarrow> bool" where
  "IsOptionEnabled st opt \<longleftrightarrow> opt \<in> m_Options st"

text \<open>
  Modelled from the spec: \<open>LoadFile\<close> is declared in the header and defined
  outside the sources (section 4.3): a failed load leaves an empty document with the
  existence flag false, a successful one sets the flag.
\<close>

definition LoadFile :: "'c Collaborators \<Rightarrow> kxString \<Rightarrow> ConfigObject" where
  "LoadFile env path =
     (case LoadINI env path of
        Some ini \<Rightarrow> \<lparr>m_INI = ini, m_Path = path, m_IsChanged = False, m_ExistOnDisk = True\<rparr>
      | None \<Rightarrow> \<lparr>m_INI = [], m_Path = path, m_IsChanged = False, m_ExistOnDisk = False\<rparr>)"

text \<open>
  Modelled from the spec: \<open>SaveFile\<close> is declared in the header and defined
  outside the sources (section 4.3): a successful save writes the document to the
  path and clears the dirty flag, a failed one leaves the entry dirty. After the
  comment in \<open>WriteStringT\<close> nothing is flushed when \<open>NativeWrite\<close> or
  \<open>WriteProtected\<close> is enabled.
\<close>

definition SaveFile ::
  "'c Collaborators \<Rightarrow> 'c RedirectorInterface \<Rightarrow> ConfigObject \<Rightarrow> ConfigObject \<times> 'c RedirectorInterface" where
  "SaveFile env st obj =
     (if IsOptionEnabled st NativeWrite \<or> IsOptionEnabled st WriteProtected then (obj, st)
      else if SaveINI env (m_Path obj) (m_INI obj)
        then (obj\<lparr>m_IsChanged := False\<rparr>,
              st\<lparr>SavedFiles := SavedFiles st @ [(m_Path obj, m_INI obj)]\<rparr>)
      else (obj, st))"

text \<open>
  Modelled from the spec: \<open>OnWrite\<close> is declared in the header and defined outside
  the sources (section 4.6): a change marks the entry dirty and, under the
  save-on-write policy, saves at once.
\<close>

definition OnWrite ::
  "'c Collaborators \<Rightarrow> 'c RedirectorInterface \<Rightarrow> ConfigObject \<Rightarrow> ConfigObject \<times> 'c RedirectorInterface" where
  "OnWrite env st obj =
     (if IsOptionEnabled st SaveOnWrite then SaveFile env st (obj\<lparr>m_IsChanged := True\<rparr>)
      else (obj\<lparr>m_IsChanged := True\<rparr>, st))"

text \<open>
  Modelled from the spec: \<open>GetOrLoadFile\<close> is declared in the header and defined
  outside the sources (section 4.4): it normalises the path and returns the entry of
  that path, constructing, loading and inserting it if there is none. The result
  carries the normalised path, the key under which the entry lives, for the reference
  the source returns.
\<close>

definition GetOrLoadFile ::
  "'c Collaborators \<Rightarrow> 'c RedirectorInterface \<Rightarrow> kxString
     \<Rightarrow> kxString \<times> ConfigObject \<times> 'c RedirectorInterface" where
  "GetOrLoadFile env st path =
     (let p = NormalizePath env path
      in case m_INIMap st p of
           Some obj \<Rightarrow> (p, obj, st)
         | None \<Rightarrow> (p, LoadFile env p, st\<lparr>m_INIMap := (m_INIMap st)(p \<mapsto> LoadFile env p)\<rparr>))"

text \<open>The entry behind the reference after the handler has changed it in place.\<close>

definition StoreObject ::
  "kxString \<Rightarrow> ConfigObject \<times> 'c RedirectorInterface \<Rightarrow> 'c RedirectorInterface" where
  "StoreObject p r = (case r of (obj, st) \<Rightarrow> st\<lparr>m_INIMap := (m_INIMap st)(p \<mapsto> obj)\<rparr>)"

section \<open>The redirected handlers (namespace PPR::PrivateProfile)\<close>

text \<open>
  \<open>static_cast<DWORD>(result)\<close> of a \<open>size_t\<close> computed with wrap-around: the value
  modulo \<open>2^32\<close> (the same for a 32-bit and a 64-bit \<open>size_t\<close>).
\<close>

definition DWORD_cast :: "int \<Rightarrow> nat" where
  "DWORD_cast n = nat (n mod 2 ^ 32)"

text \<open>
  Modelled from the spec: \<open>INIWrapper::GetSectionNamesZSSTRZZ\<close> is not among the
  sources (sections 4.1 and 4.6): the list of the section names, converted to the
  caller's character width.
\<close>

definition GetSectionNamesZSSTRZZ ::
  "'c Collaborators \<Rightarrow> INIWrapper \<Rightarrow> nat \<Rightarrow> 'c::zero list \<times> bool \<times> nat" where
  "GetSectionNamesZSSTRZZ env ini maxSize =
     CreateZSSTRZZ (\<lambda>name. Some (EncodingFrom env name)) (GetSectionNames ini) maxSize"

text \<open>
  Modelled from the spec: \<open>INIWrapper::GetKeyNamesZSSTRZZ\<close> is not among the
  sources (sections 4.1 and 4.6): the list of the key names of a section, converted
  to the caller's character width.
\<close>

definition GetKeyNamesZSSTRZZ ::
  "'c Collaborators \<Rightarrow> INIWrapper \<Rightarrow> kxString \<Rightarrow> nat \<Rightarrow> 'c::zero list \<times> bool \<times> nat" where
  "GetKeyNamesZSSTRZZ env ini section maxSize =
     CreateZSSTRZZ (\<lambda>name. Some (EncodingFrom env name)) (GetKeyNames ini section) maxSize"

text \<open>
  The block that follows each enumeration in \<open>GetStringT\<close> and \<open>GetSectionT\<close>
  (three copies in the source): copy the list, and return its length minus one, or
  \<open>nSize - 2\<close> when the copy reports an insufficient buffer or the list is truncated.
\<close>

definition ReturnZSSTRZZ ::
  "'c::zero list option \<Rightarrow> nat \<Rightarrow> 'c list \<times> bool \<times> nat \<Rightarrow> nat \<times> 'c list option" where
  "ReturnZSSTRZZ lpReturnedString nSize r =
     (case r of (items, truncated, count) \<Rightarrow>
        (case StringCopyBuffer lpReturnedString nSize (Some items) (length items) of
           (hr, buf, copiedSize) \<Rightarrow>
             (DWORD_cast
                (if hr = STRSAFE_E_INSUFFICIENT_BUFFER then int nSize - 2
                 else if truncated then int nSize - 2
                 else int (length items) - 1),
              buf)))"

text \<open>
  \<open>GetStringT(appName, keyName, defaultValue, lpReturnedString, nSize, lpFileName)\<close>:
  returns the \<open>DWORD\<close> result, the caller's buffer and the redirector after the call.
\<close>

definition GetStringT ::
  "'c Collaborators \<Rightarrow> 'c RedirectorInterface \<Rightarrow> 'c::zero list option \<Rightarrow> 'c list option
     \<Rightarrow> 'c list option \<Rightarrow> 'c list option \<Rightarrow> nat \<Rightarrow> 'c list option
     \<Rightarrow> nat \<times> 'c list option \<times> 'c RedirectorInterface" where
  "GetStringT env st appName keyName defaultValue lpReturnedString nSize lpFileName =
     (case lpFileName of
        None \<Rightarrow> (0, lpReturnedString, SetLastError st ERROR_FILE_NOT_FOUND)
      | Some fileName \<Rightarrow>
          if lpReturnedString = None \<or> nSize < 2
            then (0, lpReturnedString, SetLastError st ERROR_INSUFFICIENT_BUFFER)
          else
            (case GetOrLoadFile env st (EncodingTo env (c_str fileName)) of
               (p, configObject, st1) \<Rightarrow>
                 (case appName of
                    None \<Rightarrow>
                      (case ReturnZSSTRZZ lpReturnedString nSize
                              (GetSectionNamesZSSTRZZ env (m_INI configObject) nSize) of
                         (result, buf) \<Rightarrow> (result, buf, st1))
                  | Some app \<Rightarrow>
                      (case keyName of
                         None \<Rightarrow>
                           (case ReturnZSSTRZZ lpReturnedString nSize
                                   (GetKeyNamesZSSTRZZ env (m_INI configObject)
                                      (EncodingTo env (c_str app)) nSize) of
                              (result, buf) \<Rightarrow> (result, buf, st1))
                       | Some key \<Rightarrow>
                           (case QueryValue (m_INI configObject) (EncodingTo env (c_str app))
                                   (EncodingTo env (c_str key)) of
                              Some v \<Rightarrow>
                                (let valueRef = EncodingFrom env v
                                 in case StringCopyBuffer lpReturnedString nSize (Some valueRef)
                                           (length valueRef) of
                                      (hr, buf, copiedSize) \<Rightarrow>
                                        (DWORD_cast
                                           (if hr = STRSAFE_E_INSUFFICIENT_BUFFER then int nSize - 1
                                            else int (length valueRef)),
                                         buf, st1))
                            | None \<Rightarrow>
                                (case defaultValue of
                                   Some dv \<Rightarrow>
                                     (case StringLength defaultValue nSize of
                                        (hrLength, len) \<Rightarrow>
                                          (case StringCopyBuffer lpReturnedString nSize defaultValue len of
                                             (hr, buf, copiedSize) \<Rightarrow>
                                               (DWORD_cast
                                                  (if hr = STRSAFE_E_INSUFFICIENT_BUFFER
                                                     then int nSize - 1
                                                   else int len),
                                                buf, st1)))
                                 | None \<Rightarrow>
                                     (case StringCopyBuffer lpReturnedString nSize (Some [0]) 1 of
                                        (hr, buf, copiedSize) \<Rightarrow> (0, buf, st1))))))))"

text \<open>\<open>GetIntT(appName, keyName, defaultValue, lpFileName)\<close>; \<open>INT\<close> and \<open>UINT\<close> as 32-bit words.\<close>

definition GetIntT ::
  "'c Collaborators \<Rightarrow> 'c RedirectorInterface \<Rightarrow> 'c::zero list option \<Rightarrow> 'c list option
     \<Rightarrow> 32 word \<Rightarrow> 'c list option \<Rightarrow> 32 word \<times> 'c RedirectorInterface" where
  "GetIntT env st appName keyName defaultValue lpFileName =
     (case lpFileName of
        None \<Rightarrow> (defaultValue, SetLastError st ERROR_FILE_NOT_FOUND)
      | Some fileName \<Rightarrow>
          (case (appName, keyName) of
             (Some app, Some key) \<Rightarrow>
               (case GetOrLoadFile env st (EncodingTo env (c_str fileName)) of
                  (p, configObject, st1) \<Rightarrow>
                    (case QueryValue (m_INI configObject) (EncodingTo env (c_str app))
                            (EncodingTo env (c_str key)) of
                       Some v \<Rightarrow>
                         (case ToInteger env v of
                            Some intValue \<Rightarrow> (intValue, st1)
                          | None \<Rightarrow> (defaultValue, st1))
                     | None \<Rightarrow> (defaultValue, st1)))
           | _ \<Rightarrow> (defaultValue, SetLastError st ERROR_INVALID_PARAMETER)))"

definition GetSectionNamesT ::
  "'c Collaborators \<Rightarrow> 'c RedirectorInterface \<Rightarrow> 'c::zero list option \<Rightarrow> nat \<Rightarrow> 'c list option
     \<Rightarrow> nat \<times> 'c list option \<times> 'c RedirectorInterface" where
  "GetSectionNamesT env st lpszReturnBuffer nSize lpFileName =
     GetStringT env st None None None lpszReturnBuffer nSize lpFileName"

text \<open>\<open>GetSectionT(appName, lpReturnedString, nSize, lpFileName)\<close>; 61 is the character \<open>=\<close>.\<close>

definition GetSectionT ::
  "'c Collaborators \<Rightarrow> 'c RedirectorInterface \<Rightarrow> 'c::{zero,numeral} list option \<Rightarrow> 'c list option
     \<Rightarrow> nat \<Rightarrow> 'c list option \<Rightarrow> nat \<times> 'c list option \<times> 'c RedirectorInterface" where
  "GetSectionT env st appName lpReturnedString nSize lpFileName =
     (case lpFileName of
        None \<Rightarrow> (0, lpReturnedString, SetLastError st ERROR_FILE_NOT_FOUND)
      | Some fileName \<Rightarrow>
          (case appName of
             None \<Rightarrow> (0, lpReturnedString, SetLastError st ERROR_INVALID_PARAMETER)
           | Some app \<Rightarrow>
               if lpReturnedString = None \<or> nSize < 2
                 then (0, lpReturnedString, SetLastError st ERROR_INSUFFICIENT_BUFFER)
               else
                 (case GetOrLoadFile env st (EncodingTo env (c_str fileName)) of
                    (p, configObject, st1) \<Rightarrow>
                      (let ini = m_INI configObject;
                           sectionName = EncodingTo env (c_str app);
                           keyValuePairs =
                             CreateZSSTRZZ
                               (\<lambda>keyName.
                                  case QueryValue ini sectionName keyName of
                                    Some v \<Rightarrow>
                                      Some (EncodingFrom env keyName @ [61] @ EncodingFrom env v)
                                  | None \<Rightarrow> None)
                               (GetKeyNames ini sectionName) nSize
                       in case ReturnZSSTRZZ lpReturnedString nSize keyValuePairs of
                            (result, buf) \<Rightarrow> (result, buf, st1)))))"

text \<open>
  The lambda \<open>WriteStringToMemoryFile\<close> of \<open>WriteStringT\<close>. The document is changed
  in place, so the entry behind the reference holds the document that \<open>DeleteSection\<close>,
  \<open>DeleteKey\<close> or \<open>SetValue\<close> leaves, whatever they return.
\<close>

definition WriteStringToMemoryFile ::
  "'c Collaborators \<Rightarrow> 'c RedirectorInterface \<Rightarrow> 'c::zero list option \<Rightarrow> 'c list option
     \<Rightarrow> 'c list option \<Rightarrow> 'c list option \<Rightarrow> bool \<times> 'c RedirectorInterface" where
  "WriteStringToMemoryFile env st appName keyName lpString lpFileName =
     (case lpFileName of
        None \<Rightarrow> (False, SetLastError st ERROR_FILE_NOT_FOUND)
      | Some fileName \<Rightarrow>
          (case appName of
             None \<Rightarrow> (False, SetLastError st ERROR_INVALID_PARAMETER)
           | Some app \<Rightarrow>
               (case GetOrLoadFile env st (EncodingTo env (c_str fileName)) of
                  (p, configObject, st1) \<Rightarrow>
                    (case keyName of
                       None \<Rightarrow>
                         (case DeleteSection (m_INI configObject) (EncodingTo env (c_str app)) of
                            (deleted, ini') \<Rightarrow>
                              if deleted
                                then (True, StoreObject p (OnWrite env st1 (configObject\<lparr>m_INI := ini'\<rparr>)))
                              else (False, StoreObject p (configObject\<lparr>m_INI := ini'\<rparr>, st1)))
                     | Some key \<Rightarrow>
                         (case lpString of
                            None \<Rightarrow>
                              (case DeleteKey (m_INI configObject) (EncodingTo env (c_str app))
                                      (EncodingTo env (c_str key)) of
                                 (deleted, ini') \<Rightarrow>
                                   if deleted
                                     then (True, StoreObject p (OnWrite env st1 (configObject\<lparr>m_INI := ini'\<rparr>)))
                                   else (False, StoreObject p (configObject\<lparr>m_INI := ini'\<rparr>, st1)))
                          | Some str \<Rightarrow>
                              (case SetValue (m_INI configObject) (ToString env (c_str app))
                                      (ToString env (c_str key)) (EncodingTo env (c_str str)) of
                                 (ok, isSameData, ini') \<Rightarrow>
                                   if ok then
                                     (if isSameData
                                        then (True, StoreObject p (configObject\<lparr>m_INI := ini'\<rparr>, st1))
                                      else (True, StoreObject p (OnWrite env st1 (configObject\<lparr>m_INI := ini'\<rparr>))))
                                   else (False, StoreObject p (configObject\<lparr>m_INI := ini'\<rparr>, st1))))))))"

text \<open>
  \<open>WriteStringT(appName, keyName, lpString, lpFileName)\<close>: the call of the original
  API is an entry of the log \<open>NativeCalls\<close>, its result the collaborator's.
\<close>

definition WriteStringT ::
  "'c Collaborators \<Rightarrow> 'c RedirectorInterface \<Rightarrow> 'c::zero list option \<Rightarrow> 'c list option
     \<Rightarrow> 'c list option \<Rightarrow> 'c list option \<Rightarrow> bool \<times> 'c RedirectorInterface" where
  "WriteStringT env st appName keyName lpString lpFileName =
     (case WriteStringToMemoryFile env st appName keyName lpString lpFileName of
        (memoryWriteSuccess, st1) \<Rightarrow>
          if IsOptionEnabled st1 NativeWrite
            then (InvokeTarget env appName keyName lpString lpFileName,
                  st1\<lparr>NativeCalls := NativeCalls st1 @ [(appName, keyName, lpString, lpFileName)]\<rparr>)
          else (memoryWriteSuccess, st1))"

text \<open>The exported entry points are the two instances of each template.\<close>

definition GetStringA ::
  "char8 Collaborators \<Rightarrow> char8 RedirectorInterface \<Rightarrow> char8 list option \<Rightarrow> char8 list option
     \<Rightarrow> char8 list option \<Rightarrow> char8 list option \<Rightarrow> nat \<Rightarrow> char8 list option
     \<Rightarrow> nat \<times> char8 list option \<times> char8 RedirectorInterface" where
  "GetStringA = GetStringT"

definition GetStringW ::
  "char16 Collaborators \<Rightarrow> char16 RedirectorInterface \<Rightarrow> char16 list option \<Rightarrow> char16 list option
     \<Rightarrow> char16 list option \<Rightarrow> char16 list option \<Rightarrow> nat \<Rightarrow> char16 list option
     \<Rightarrow> nat \<times> char16 list option \<times> char16 RedirectorInterface" where
  "GetStringW = GetStringT"

definition WriteStringA ::
  "char8 Collaborators \<Rightarrow> char8 RedirectorInterface \<Rightarrow> char8 list option \<Rightarrow> char8 list option
     \<Rightarrow> char8 list option \<Rightarrow> char8 list option \<Rightarrow> bool \<times> char8 RedirectorInterface" where
  "WriteStringA = WriteStringT"

definition WriteStringW ::
  "char16 Collaborators \<Rightarrow> char16 RedirectorInterface \<Rightarrow> char16 list option \<Rightarrow> char16 list option
     \<Rightarrow> char16 list option \<Rightarrow> char16 list option \<Rightarrow> bool \<times> char16 RedirectorInterface" where
  "WriteStringW = WriteStringT"

section \<open>Observations and example collaborators\<close>

text \<open>
  The document a handler works on for a file: the one in the entry that
  \<open>GetOrLoadFile\<close> returns (loading the file on first access), and the redirector
  after that access.
\<close>

definition CachedINI ::
  "'c Collaborators \<Rightarrow> 'c RedirectorInterface \<Rightarrow> 'c::zero list \<Rightarrow> INIWrapper" where
  "CachedINI env st fileName =
     (case GetOrLoadFile env st (EncodingTo env (c_str fileName)) of
        (p, configObject, st1) \<Rightarrow> m_INI configObject)"

definition AfterLoad ::
  "'c Collaborators \<Rightarrow> 'c RedirectorInterface \<Rightarrow> 'c::zero list \<Rightarrow> 'c RedirectorInterface" where
  "AfterLoad env st fileName =
     (case GetOrLoadFile env st (EncodingTo env (c_str fileName)) of (p, configObject, st1) \<Rightarrow> st1)"

text \<open>
  A double-null-terminated list (glossary of the specification): the items, each
  followed by a zero, and one extra zero at the end.
\<close>

definition ZSSTRZZ :: "'c::zero list list \<Rightarrow> 'c list" where
  "ZSSTRZZ items = concat (map (\<lambda>s. s @ [0]) items) @ [0]"

text \<open>
  Collaborators for the wide-character handlers: the conversions are the identity;
  the file of path \<open>p\<close> (the code unit 112) holds the section \<open>S\<close> with the keys
  \<open>K = hello\<close> and \<open>J = x\<close>.
\<close>

definition ExampleINI :: INIWrapper where
  "ExampleINI = [([83], [([75], [104, 101, 108, 108, 111]), ([74], [120])])]"

definition WideCollaborators :: "char16 Collaborators" where
  "WideCollaborators =
     \<lparr>EncodingTo = (\<lambda>s. s), EncodingFrom = (\<lambda>s. s), ToString = (\<lambda>s. s),
      ToInteger = (\<lambda>s. None), NormalizePath = (\<lambda>p. p),
      LoadINI = (\<lambda>p. if p = [112] then Some ExampleINI else None),
      SaveINI = (\<lambda>p ini. True), InvokeTarget = (\<lambda>a k v f. True)\<rparr>"

text \<open>
  Collaborators for the narrow handlers with a 7-bit code page: a byte above 127
  becomes the replacement character U+FFFD, a code unit above 127 becomes \<open>?\<close> (63),
  the best-effort conversion of section 4.2 of the specification.
\<close>

definition NarrowCollaborators :: "char8 Collaborators" where
  "NarrowCollaborators =
     \<lparr>EncodingTo = map (\<lambda>c. if c < 128 then ucast c else 65533),
      EncodingFrom = map (\<lambda>w. if w < 128 then ucast w else 63),
      ToString = map (\<lambda>c. if c < 128 then ucast c else 65533),
      ToInteger = (\<lambda>s. None), NormalizePath = (\<lambda>p. p),
      LoadINI = (\<lambda>p. None),
      SaveINI = (\<lambda>p ini. True), InvokeTarget = (\<lambda>a k v f. True)\<rparr>"

text \<open>
  Collaborators for the narrow handlers whose string constructor and converter differ:
  the converter maps each byte to the code unit of the same number (a Latin-1 code
  page), the string constructor keeps 7-bit bytes and replaces the others by U+FFFD.
\<close>

definition MixedCollaborators :: "char8 Collaborators" where
  "MixedCollaborators =
     \<lparr>EncodingTo = map ucast,
      EncodingFrom = map ucast,
      ToString = map (\<lambda>c. if c < 128 then ucast c else 65533),
      ToInteger = (\<lambda>s. None), NormalizePath = (\<lambda>p. p),
      LoadINI = (\<lambda>p. None),
      SaveINI = (\<lambda>p ini. True), InvokeTarget = (\<lambda>a k v f. True)\<rparr>"

definition InitialRedirector :: "'c RedirectorInterface" where
  "InitialRedirector =
     \<lparr>m_INIMap = Map.empty, m_Options = {}, LastError = 0, SavedFiles = [], NativeCalls = []\<rparr>"

section \<open>Properties of the marshaling layer\<close>

lemma StringCopyBuffer_null:
  "dst = None \<or> src = None \<Longrightarrow>
     StringCopyBuffer dst dstSize src srcSize = (STRSAFE_E_INVALID_PARAMETER, dst, 0)"
  by (auto simp: StringCopyBuffer_def split: option.splits)

lemma StringCopyBuffer_empty:
  "min dstSize srcSize = 0 \<Longrightarrow>
     StringCopyBuffer (Some d) dstSize (Some s) srcSize =
       (S_OK, Some (replicate dstSize 0 @ drop dstSize d), 0)"
  by (simp add: StringCopyBuffer_def memset0_def)

lemma StringCopyBuffer_room:
  assumes "dstSize \<le> length d" "srcSize \<le> length s" "0 < srcSize" "srcSize < dstSize"
  shows "StringCopyBuffer (Some d) dstSize (Some s) srcSize =
           (S_OK, Some (take srcSize s @ replicate (dstSize - srcSize) 0 @ drop dstSize d), srcSize)"
proof -
  have cut: "drop srcSize (replicate dstSize (0::'a) @ drop dstSize d) =
               replicate (dstSize - srcSize) 0 @ drop dstSize d"
    using assms by simp
  have upd: "(take srcSize s @ replicate (dstSize - srcSize) (0::'a) @ drop dstSize d)[srcSize := 0] =
               take srcSize s @ replicate (dstSize - srcSize) 0 @ drop dstSize d"
  proof -
    have "(replicate (dstSize - srcSize) (0::'a) @ drop dstSize d)[0 := 0] =
            replicate (dstSize - srcSize) 0 @ drop dstSize d"
      using assms by (cases "dstSize - srcSize") simp_all
    then show ?thesis
      using assms by (simp add: list_update_append)
  qed
  show ?thesis
    using assms by (simp add: StringCopyBuffer_def memset0_def memcpy_def Let_def cut upd min_def)
qed

lemma StringCopyBuffer_exact:
  assumes "dstSize \<le> length d" "dstSize \<le> length s" "0 < dstSize" "s ! (dstSize - 1) = 0"
  shows "StringCopyBuffer (Some d) dstSize (Some s) dstSize =
           (S_OK, Some (take dstSize s @ drop dstSize d), dstSize)"
  using assms by (simp add: StringCopyBuffer_def memset0_def memcpy_def Let_def nth_append)

lemma StringCopyBuffer_truncate:
  assumes "dstSize \<le> length d" "srcSize \<le> length s" "0 < dstSize" "dstSize \<le> srcSize"
    and "\<not> (dstSize = srcSize \<and> s ! (dstSize - 1) = 0)"
  shows "StringCopyBuffer (Some d) dstSize (Some s) srcSize =
           (STRSAFE_E_INSUFFICIENT_BUFFER,
            Some (take (dstSize - 1) s @ [0] @ drop dstSize d), dstSize)"
proof -
  have len: "length (take dstSize s) = dstSize"
    using assms by simp
  have upd: "(take dstSize s @ drop dstSize d)[dstSize - 1 := 0] =
               take (dstSize - 1) s @ [0] @ drop dstSize d"
  proof -
    obtain k where k: "dstSize = Suc k"
      using assms by (cases dstSize) simp_all
    have "take (Suc k) s = take k s @ [s ! k]"
      using assms k by (simp add: take_Suc_conv_app_nth)
    moreover have "length (take k s) = k"
      using assms k by simp
    ultimately have "(take (Suc k) s)[k := 0] = take k s @ [0::'a]"
      by (metis list_update_length)
    then have "(take dstSize s)[dstSize - 1 := 0] = take (dstSize - 1) s @ [0::'a]"
      using k by simp
    then show ?thesis
      using assms len by (simp add: list_update_append)
  qed
  show ?thesis
    using assms
    by (auto simp: StringCopyBuffer_def memset0_def memcpy_def Let_def nth_append
        upd [simplified] min_def)
qed

text \<open>
  Claim C1. \<open>StringCopyBuffer\<close>, for any character width: a null destination or
  source fails with \<open>STRSAFE_E_INVALID_PARAMETER\<close>. Otherwise, with
  \<open>n = min dstSize srcSize\<close>: for \<open>n = 0\<close> the call succeeds with copied count 0
  and a zeroed destination; for \<open>dstSize > srcSize\<close> it succeeds, the destination
  holds the source followed by zeros up to its capacity (so the terminator sits right
  after the copied source); for \<open>dstSize = srcSize\<close> with a source whose last
  character is zero it succeeds with the source copied as it is; in every other case it
  fails with \<open>STRSAFE_E_INSUFFICIENT_BUFFER\<close> and the destination holds the first
  \<open>dstSize - 1\<close> source characters followed by a zero in its last writable
  position. The memory past \<open>dstSize\<close> is never changed.
\<close>

theorem StringCopyBuffer_contract:
  fixes d s :: "'c::zero list"
  assumes "dstSize \<le> length d" and "srcSize \<le> length s"
  shows "fst (StringCopyBuffer None dstSize src srcSize) = STRSAFE_E_INVALID_PARAMETER
       \<and> fst (StringCopyBuffer dst dstSize (None :: 'c list option) srcSize) = STRSAFE_E_INVALID_PARAMETER
       \<and> StringCopyBuffer (Some d) dstSize (Some s) srcSize =
           (if min dstSize srcSize = 0
              then (S_OK, Some (replicate dstSize 0 @ drop dstSize d), 0)
            else if dstSize > srcSize
              then (S_OK, Some (take srcSize s @ replicate (dstSize - srcSize) 0 @ drop dstSize d),
                    min dstSize srcSize)
            else if dstSize = srcSize \<and> s ! (srcSize - 1) = 0
              then (S_OK, Some (take dstSize s @ drop dstSize d), min dstSize srcSize)
            else (STRSAFE_E_INSUFFICIENT_BUFFER,
                  Some (take (dstSize - 1) s @ [0] @ drop dstSize d), min dstSize srcSize))
       \<and> (case fst (snd (StringCopyBuffer (Some d) dstSize (Some s) srcSize)) of
             Some d' \<Rightarrow> length d' = length d \<and> drop dstSize d' = drop dstSize d
           | None \<Rightarrow> False)"
proof -
  have null1: "fst (StringCopyBuffer None dstSize src srcSize) = STRSAFE_E_INVALID_PARAMETER"
    by (simp add: StringCopyBuffer_null)
  have null2: "fst (StringCopyBuffer dst dstSize (None :: 'c list option) srcSize) =
                 STRSAFE_E_INVALID_PARAMETER"
    by (simp add: StringCopyBuffer_null)
  let ?r = "StringCopyBuffer (Some d) dstSize (Some s) srcSize"
  consider (empty) "min dstSize srcSize = 0"
    | (room) "0 < srcSize" "srcSize < dstSize"
    | (exact) "0 < dstSize" "dstSize = srcSize" "s ! (srcSize - 1) = 0"
    | (trunc) "0 < dstSize" "dstSize \<le> srcSize" "\<not> (dstSize = srcSize \<and> s ! (dstSize - 1) = 0)"
    by (cases "dstSize = srcSize"; cases "dstSize < srcSize"; cases "dstSize = 0"; cases "srcSize = 0")
       (auto simp: min_def)
  then have main: "?r =
           (if min dstSize srcSize = 0
              then (S_OK, Some (replicate dstSize 0 @ drop dstSize d), 0)
            else if dstSize > srcSize
              then (S_OK, Some (take srcSize s @ replicate (dstSize - srcSize) 0 @ drop dstSize d),
                    min dstSize srcSize)
            else if dstSize = srcSize \<and> s ! (srcSize - 1) = 0
              then (S_OK, Some (take dstSize s @ drop dstSize d), min dstSize srcSize)
            else (STRSAFE_E_INSUFFICIENT_BUFFER,
                  Some (take (dstSize - 1) s @ [0] @ drop dstSize d), min dstSize srcSize))"
  proof cases
    case empty
    then show ?thesis by (simp add: StringCopyBuffer_empty)
  next
    case room
    then show ?thesis using assms by (simp add: StringCopyBuffer_room)
  next
    case exact
    then show ?thesis using assms by (simp add: StringCopyBuffer_exact)
  next
    case trunc
    then show ?thesis using assms by (auto simp: StringCopyBuffer_truncate)
  qed
  have frame: "(case fst (snd ?r) of
             Some d' \<Rightarrow> length d' = length d \<and> drop dstSize d' = drop dstSize d
           | None \<Rightarrow> False)"
    unfolding main using assms by auto
  show ?thesis
    using null1 null2 main frame by blast
qed

theorem StringCopyBuffer_contract_witness:
  "(3::nat) \<le> length [7, 7, 7, 7 :: char8] \<and> (5::nat) \<le> length [104, 101, 108, 108, 111 :: char8]
   \<and> StringCopyBuffer (Some [7, 7, 7, 7 :: char8]) 3 (Some [104, 101, 108, 108, 111]) 5 =
         (STRSAFE_E_INSUFFICIENT_BUFFER, Some [104, 101, 0, 7], 3)"
  using StringCopyBuffer_contract [where dstSize = 3 and d = "[7, 7, 7, 7 :: char8]" and srcSize = 5
      and s = "[104, 101, 108, 108, 111]" and src = None and dst = None]
  by auto

section \<open>Reading a value\<close>

lemma DWORD_cast_id: "0 \<le> n \<Longrightarrow> n < 2 ^ 32 \<Longrightarrow> DWORD_cast n = nat n"
  by (simp add: DWORD_cast_def)

lemma GetStringT_found:
  assumes "QueryValue (CachedINI env st fileName) (EncodingTo env (c_str app)) (EncodingTo env (c_str key)) = Some v"
    and "2 \<le> nSize"
  shows "GetStringT env st (Some app) (Some key) dflt (Some b) nSize (Some fileName) =
           (case StringCopyBuffer (Some b) nSize (Some (EncodingFrom env v)) (length (EncodingFrom env v)) of
              (hr, buf, copiedSize) \<Rightarrow>
                (DWORD_cast (if hr = STRSAFE_E_INSUFFICIENT_BUFFER then int nSize - 1
                             else int (length (EncodingFrom env v))),
                 buf, AfterLoad env st fileName))"
  using assms
  by (auto simp: GetStringT_def CachedINI_def AfterLoad_def Let_def split: prod.splits)

lemma GetStringT_found_fits:
  fixes b :: "'c::zero list"
  assumes "2 \<le> nSize" and "nSize \<le> length b" and "nSize < 2 ^ 32"
    and "QueryValue (CachedINI env st fileName) (EncodingTo env (c_str app)) (EncodingTo env (c_str key)) = Some v"
    and "length (EncodingFrom env v) < nSize"
  shows "GetStringT env st (Some app) (Some key) dflt (Some b) nSize (Some fileName) =
           (length (EncodingFrom env v),
            Some (EncodingFrom env v @ replicate (nSize - length (EncodingFrom env v)) 0 @ drop nSize b),
            AfterLoad env st fileName)"
proof (cases "length (EncodingFrom env v) = 0")
  case True
  then show ?thesis
    using assms by (simp add: GetStringT_found StringCopyBuffer_empty DWORD_cast_id)
next
  case False
  then show ?thesis
    using assms by (simp add: GetStringT_found StringCopyBuffer_room DWORD_cast_id)
qed

lemma GetStringT_found_truncated:
  fixes b :: "'c::zero list"
  assumes "2 \<le> nSize" and "nSize \<le> length b" and "nSize < 2 ^ 32"
    and "QueryValue (CachedINI env st fileName) (EncodingTo env (c_str app)) (EncodingTo env (c_str key)) = Some v"
    and "nSize \<le> length (EncodingFrom env v)"
    and "0 \<notin> set (EncodingFrom env v)"
  shows "GetStringT env st (Some app) (Some key) dflt (Some b) nSize (Some fileName) =
           (nSize - 1,
            Some (take (nSize - 1) (EncodingFrom env v) @ [0] @ drop nSize b),
            AfterLoad env st fileName)"
proof -
  have "EncodingFrom env v ! (nSize - 1) \<in> set (EncodingFrom env v)"
    using assms by (intro nth_mem) simp
  then have "EncodingFrom env v ! (nSize - 1) \<noteq> 0"
    using assms by metis
  then show ?thesis
    using assms
    by (simp add: GetStringT_found StringCopyBuffer_truncate DWORD_cast_id)
qed

text \<open>
  Claim C2. \<open>GetStringT\<close> with a file path, a buffer and \<open>nSize \<ge> 2\<close>, for a
  (section, key) whose stored value converts to the text \<open>valueRef\<close> of length \<open>L\<close>
  (a text, so without a zero character): for \<open>L < nSize\<close> the call returns \<open>L\<close>
  and the buffer holds the value followed by zeros; for \<open>L \<ge> nSize\<close> it returns
  \<open>nSize - 1\<close> and the buffer holds the first \<open>nSize - 1\<close> characters of the value
  with a zero at index \<open>nSize - 1\<close>. The buffer past \<open>nSize\<close> is unchanged.
\<close>

theorem GetStringT_value:
  fixes b :: "'c::zero list"
  assumes "2 \<le> nSize" and "nSize \<le> length b" and "nSize < 2 ^ 32"
    and "QueryValue (CachedINI env st fileName) (EncodingTo env (c_str app))
           (EncodingTo env (c_str key)) = Some v"
    and "valueRef = EncodingFrom env v"
    and "0 \<notin> set valueRef"
  shows "GetStringT env st (Some app) (Some key) dflt (Some b) nSize (Some fileName) =
           (if length valueRef < nSize
              then (length valueRef,
                    Some (valueRef @ replicate (nSize - length valueRef) 0 @ drop nSize b),
                    AfterLoad env st fileName)
            else (nSize - 1,
                  Some (take (nSize - 1) valueRef @ [0] @ drop nSize b),
                  AfterLoad env st fileName))"
  using assms by (simp add: GetStringT_found_fits GetStringT_found_truncated)

lemma WideCollaborators_conv:
  "EncodingTo WideCollaborators s = s" "EncodingFrom WideCollaborators t = t"
  "ToString WideCollaborators s = s" "NormalizePath WideCollaborators t = t"
  by (simp_all add: WideCollaborators_def)

lemma CachedINI_example:
  "CachedINI WideCollaborators InitialRedirector [112] = ExampleINI"
  by (simp add: CachedINI_def WideCollaborators_def InitialRedirector_def GetOrLoadFile_def
      LoadFile_def Let_def c_str_def)

theorem GetStringT_value_witness:
  "(2::nat) \<le> 3 \<and> 3 \<le> length [1, 1, 1, 1 :: char16] \<and> (3::nat) < 2 ^ 32
   \<and> QueryValue (CachedINI WideCollaborators InitialRedirector [112])
         (EncodingTo WideCollaborators (c_str [83])) (EncodingTo WideCollaborators (c_str [75])) =
       Some [104, 101, 108, 108, 111]
   \<and> 0 \<notin> set (EncodingFrom WideCollaborators [104, 101, 108, 108, 111])
   \<and> GetStringT WideCollaborators InitialRedirector (Some [83]) (Some [75]) None
         (Some [1, 1, 1, 1]) 3 (Some [112]) =
       (2, Some [104, 101, 0, 1], AfterLoad WideCollaborators InitialRedirector [112])"
proof -
  have q: "QueryValue (CachedINI WideCollaborators InitialRedirector [112])
         (EncodingTo WideCollaborators (c_str [83])) (EncodingTo WideCollaborators (c_str [75])) =
       Some [104, 101, 108, 108, 111]"
    by (simp add: CachedINI_example QueryValue_def ExampleINI_def WideCollaborators_conv c_str_def)
  have z: "0 \<notin> set (EncodingFrom WideCollaborators [104, 101, 108, 108, 111])"
    by (simp add: WideCollaborators_conv)
  have e: "EncodingFrom WideCollaborators [104, 101, 108, 108, 111] = [104, 101, 108, 108, 111]"
    by (simp add: WideCollaborators_conv)
  show ?thesis
    using GetStringT_value [where nSize = 3 and b = "[1, 1, 1, 1 :: char16]" and env = WideCollaborators
        and st = InitialRedirector and fileName = "[112]" and app = "[83]" and key = "[75]"
        and v = "[104, 101, 108, 108, 111]" and valueRef = "[104, 101, 108, 108, 111]"
        and dflt = None] q z e
    by auto
qed

section \<open>The default value\<close>

lemma c_str_no_zero: "0 \<notin> set (c_str m)"
  by (auto simp: c_str_def dest: set_takeWhileD)

lemma StringLength_long:
  "nSize \<le> length (c_str dv) \<Longrightarrow> StringLength (Some dv) nSize = (STRSAFE_E_INVALID_PARAMETER, 0)"
  by (simp add: StringLength_def StringCchLength_def)

lemma StringLength_short:
  "length (c_str dv) < nSize \<Longrightarrow> nSize \<le> STRSAFE_MAX_CCH \<Longrightarrow>
     StringLength (Some dv) nSize = (S_OK, length (c_str dv))"
  by (simp add: StringLength_def StringCchLength_def)

lemma GetStringT_not_found:
  assumes "QueryValue (CachedINI env st fileName) (EncodingTo env (c_str app)) (EncodingTo env (c_str key)) = None"
    and "2 \<le> nSize"
  shows "GetStringT env st (Some app) (Some key) (Some dv) (Some b) nSize (Some fileName) =
           (case StringLength (Some dv) nSize of
              (hrLength, len) \<Rightarrow>
                (case StringCopyBuffer (Some b) nSize (Some dv) len of
                   (hr, buf, copiedSize) \<Rightarrow>
                     (DWORD_cast (if hr = STRSAFE_E_INSUFFICIENT_BUFFER then int nSize - 1 else int len),
                      buf, AfterLoad env st fileName)))"
    and "GetStringT env st (Some app) (Some key) None (Some b) nSize (Some fileName) =
           (case StringCopyBuffer (Some b) nSize (Some [0]) 1 of
              (hr, buf, copiedSize) \<Rightarrow> (0, buf, AfterLoad env st fileName))"
  using assms
  by (auto simp: GetStringT_def CachedINI_def AfterLoad_def Let_def split: prod.splits)

lemma GetStringT_default_long:
  assumes "2 \<le> nSize"
    and "QueryValue (CachedINI env st fileName) (EncodingTo env (c_str app)) (EncodingTo env (c_str key)) = None"
    and "nSize \<le> length (c_str dv)"
  shows "GetStringT env st (Some app) (Some key) (Some dv) (Some b) nSize (Some fileName) =
           (0, Some (replicate nSize 0 @ drop nSize b), AfterLoad env st fileName)"
  using assms
  by (simp add: GetStringT_not_found StringLength_long StringCopyBuffer_empty DWORD_cast_def)

text \<open>
  Claim C10. \<open>GetStringT\<close> for a (section, key) that is not found, with a default
  value whose length is at least \<open>nSize\<close>: measuring the default with the maximum
  \<open>nSize\<close> fails and yields the length 0, the call returns 0 and the buffer is zero
  over its whole capacity. A stored value with the same text (under \<open>appStored\<close>,
  \<open>keyStored\<close>) is delivered truncated to \<open>nSize - 1\<close> characters instead.
\<close>

theorem GetStringT_long_default_not_truncated:
  fixes b :: "'c::zero list"
  assumes "2 \<le> nSize" and "nSize \<le> length b" and "nSize < 2 ^ 32"
    and "QueryValue (CachedINI env st fileName) (EncodingTo env (c_str app))
           (EncodingTo env (c_str key)) = None"
    and "nSize \<le> length (c_str dv)"
    and "QueryValue (CachedINI env st fileName) (EncodingTo env (c_str appStored))
           (EncodingTo env (c_str keyStored)) = Some v"
    and "EncodingFrom env v = c_str dv"
  shows "StringLength (Some dv) nSize = (STRSAFE_E_INVALID_PARAMETER, 0)
       \<and> GetStringT env st (Some app) (Some key) (Some dv) (Some b) nSize (Some fileName) =
           (0, Some (replicate nSize 0 @ drop nSize b), AfterLoad env st fileName)
       \<and> GetStringT env st (Some appStored) (Some keyStored) (Some dv) (Some b) nSize (Some fileName) =
           (nSize - 1, Some (take (nSize - 1) (c_str dv) @ [0] @ drop nSize b),
            AfterLoad env st fileName)"
proof -
  have "0 \<notin> set (EncodingFrom env v)"
    using assms by (simp add: c_str_no_zero)
  then have "GetStringT env st (Some appStored) (Some keyStored) (Some dv) (Some b) nSize (Some fileName) =
           (nSize - 1, Some (take (nSize - 1) (c_str dv) @ [0] @ drop nSize b),
            AfterLoad env st fileName)"
    using assms GetStringT_found_truncated [of nSize b env st fileName appStored keyStored v "Some dv"]
    by simp
  then show ?thesis
    using assms by (simp add: StringLength_long GetStringT_default_long)
qed

lemma Example_queries:
  "QueryValue (CachedINI WideCollaborators InitialRedirector [112])
     (EncodingTo WideCollaborators (c_str [83])) (EncodingTo WideCollaborators (c_str [75])) =
       Some [104, 101, 108, 108, 111]"
  "QueryValue (CachedINI WideCollaborators InitialRedirector [112])
     (EncodingTo WideCollaborators (c_str [83])) (EncodingTo WideCollaborators (c_str [90])) = None"
  by (simp_all add: CachedINI_example QueryValue_def ExampleINI_def WideCollaborators_conv c_str_def)

theorem GetStringT_long_default_not_truncated_witness:
  "(2::nat) \<le> 3 \<and> 3 \<le> length [1, 1, 1, 1 :: char16] \<and> (3::nat) < 2 ^ 32
   \<and> QueryValue (CachedINI WideCollaborators InitialRedirector [112])
         (EncodingTo WideCollaborators (c_str [83])) (EncodingTo WideCollaborators (c_str [90])) = None
   \<and> 3 \<le> length (c_str [104, 101, 108, 108, 111 :: char16])
   \<and> QueryValue (CachedINI WideCollaborators InitialRedirector [112])
         (EncodingTo WideCollaborators (c_str [83])) (EncodingTo WideCollaborators (c_str [75])) =
       Some [104, 101, 108, 108, 111]
   \<and> EncodingFrom WideCollaborators [104, 101, 108, 108, 111] = c_str [104, 101, 108, 108, 111]
   \<and> StringLength (Some [104, 101, 108, 108, 111 :: char16]) 3 = (STRSAFE_E_INVALID_PARAMETER, 0)
   \<and> GetStringT WideCollaborators InitialRedirector (Some [83]) (Some [90])
         (Some [104, 101, 108, 108, 111]) (Some [1, 1, 1, 1]) 3 (Some [112]) =
       (0, Some [0, 0, 0, 1], AfterLoad WideCollaborators InitialRedirector [112])
   \<and> GetStringT WideCollaborators InitialRedirector (Some [83]) (Some [75])
         (Some [104, 101, 108, 108, 111]) (Some [1, 1, 1, 1]) 3 (Some [112]) =
       (2, Some [104, 101, 0, 1], AfterLoad WideCollaborators InitialRedirector [112])"
proof -
  have c: "c_str [104, 101, 108, 108, 111 :: char16] = [104, 101, 108, 108, 111]"
    by (simp add: c_str_def)
  have e: "EncodingFrom WideCollaborators [104, 101, 108, 108, 111] = c_str [104, 101, 108, 108, 111]"
    by (simp add: WideCollaborators_conv c)
  have r: "replicate 3 (0 :: char16) @ drop 3 [1, 1, 1, 1] = [0, 0, 0, 1]"
    by (simp add: eval_nat_numeral)
  have t: "take (3 - 1) [104, 101, 108, 108, 111 :: char16] @ [0] @ drop 3 [1, 1, 1, 1] = [104, 101, 0, 1]"
    by (simp add: eval_nat_numeral)
  show ?thesis
    using GetStringT_long_default_not_truncated [where nSize = 3 and b = "[1, 1, 1, 1 :: char16]"
        and env = WideCollaborators and st = InitialRedirector and fileName = "[112]"
        and app = "[83]" and key = "[90]" and appStored = "[83]" and keyStored = "[75]"
        and dv = "[104, 101, 108, 108, 111]" and v = "[104, 101, 108, 108, 111]"]
      Example_queries e c r t
    by auto
qed

text \<open>
  Claim C6, at a default value longer than the buffer: the default \<open>abcdef\<close> and
  \<open>nSize = 4\<close> for a key that is not stored. The call returns 0 and leaves the buffer
  zeroed; the copy rules of \<open>StringCopyBuffer\<close> applied to the default give the
  truncated \<open>abc\<close> with \<open>STRSAFE_E_INSUFFICIENT_BUFFER\<close>, for which the handler
  would return \<open>nSize - 1 = 3\<close>.
\<close>

theorem GetStringT_long_default_example:
  "GetStringT WideCollaborators InitialRedirector (Some [83]) (Some [90])
       (Some [97, 98, 99, 100, 101, 102]) (Some [1, 1, 1, 1, 1]) 4 (Some [112]) =
     (0, Some [0, 0, 0, 0, 1], AfterLoad WideCollaborators InitialRedirector [112])
   \<and> StringCopyBuffer (Some [1, 1, 1, 1, 1 :: char16]) 4 (Some [97, 98, 99, 100, 101, 102]) 6 =
     (STRSAFE_E_INSUFFICIENT_BUFFER, Some [97, 98, 99, 0, 1], 4)"
proof -
  have c: "c_str [97, 98, 99, 100, 101, 102 :: char16] = [97, 98, 99, 100, 101, 102]"
    by (simp add: c_str_def)
  have "GetStringT WideCollaborators InitialRedirector (Some [83]) (Some [90])
       (Some [97, 98, 99, 100, 101, 102]) (Some [1, 1, 1, 1, 1]) 4 (Some [112]) =
     (0, Some (replicate 4 0 @ drop 4 [1, 1, 1, 1, 1]), AfterLoad WideCollaborators InitialRedirector [112])"
    by (rule GetStringT_default_long) (simp_all add: Example_queries c)
  moreover have "StringCopyBuffer (Some [1, 1, 1, 1, 1 :: char16]) 4 (Some [97, 98, 99, 100, 101, 102]) 6 =
     (STRSAFE_E_INSUFFICIENT_BUFFER, Some (take (4 - 1) [97, 98, 99, 100, 101, 102] @ [0] @ drop 4 [1, 1, 1, 1, 1]), 4)"
    by (rule StringCopyBuffer_truncate) simp_all
  moreover have "replicate 4 (0 :: char16) @ drop 4 [1, 1, 1, 1, 1] = [0, 0, 0, 0, 1]"
    by (simp add: eval_nat_numeral)
  moreover have "take (4 - 1) [97, 98, 99, 100, 101, 102 :: char16] @ [0] @ drop 4 [1, 1, 1, 1, 1] =
                   [97, 98, 99, 0, 1]"
    by (simp add: eval_nat_numeral)
  ultimately show ?thesis
    by simp
qed

section \<open>Validation of the arguments\<close>

lemma SetLastError_frame:
  "m_INIMap (SetLastError st e) = m_INIMap st" "m_Options (SetLastError st e) = m_Options st"
  "SavedFiles (SetLastError st e) = SavedFiles st" "NativeCalls (SetLastError st e) = NativeCalls st"
  "LastError (SetLastError st e) = e"
  by (simp_all add: SetLastError_def)

lemma null_path:
  "GetStringT env st appName keyName dflt buf nSize None = (0, buf, SetLastError st ERROR_FILE_NOT_FOUND)"
  "GetIntT env st appName keyName d None = (d, SetLastError st ERROR_FILE_NOT_FOUND)"
  "GetSectionNamesT env st buf nSize None = (0, buf, SetLastError st ERROR_FILE_NOT_FOUND)"
  "GetSectionT env' st' appName' buf' nSize None = (0, buf', SetLastError st' ERROR_FILE_NOT_FOUND)"
  "WriteStringToMemoryFile env st appName keyName str None = (False, SetLastError st ERROR_FILE_NOT_FOUND)"
  by (simp_all add: GetStringT_def GetIntT_def GetSectionNamesT_def GetSectionT_def
      WriteStringToMemoryFile_def)

lemma bad_buffer:
  assumes "buf = None \<or> nSize < 2"
  shows "GetStringT env st appName keyName dflt buf nSize (Some f) =
           (0, buf, SetLastError st ERROR_INSUFFICIENT_BUFFER)"
    and "GetSectionNamesT env st buf nSize (Some f) = (0, buf, SetLastError st ERROR_INSUFFICIENT_BUFFER)"
    and "buf' = None \<or> nSize < 2 \<Longrightarrow> GetSectionT env' st' (Some app) buf' nSize (Some f') =
           (0, buf', SetLastError st' ERROR_INSUFFICIENT_BUFFER)"
  using assms by (auto simp: GetStringT_def GetSectionNamesT_def GetSectionT_def)

text \<open>
  Claim C9, as the code has it. With a null file path every handler sets
  \<open>ERROR_FILE_NOT_FOUND\<close> and returns its failure value (0, the default integer,
  false for the in-memory write, which is the result of \<open>WriteStringT\<close> when
  \<open>NativeWrite\<close> is off); the buffer and the cache are as before. With a file path, a
  null buffer or \<open>nSize < 2\<close> makes \<open>GetStringT\<close> and \<open>GetSectionNamesT\<close> set
  \<open>ERROR_INSUFFICIENT_BUFFER\<close> and return 0, and \<open>GetSectionT\<close> too when its section
  argument is not null.
\<close>

theorem handlers_validate_arguments:
  fixes env :: "'c::{zero,numeral} Collaborators"
  shows "GetStringT env st appName keyName dflt buf nSize None =
           (0, buf, SetLastError st ERROR_FILE_NOT_FOUND)
       \<and> GetIntT env st appName keyName d None = (d, SetLastError st ERROR_FILE_NOT_FOUND)
       \<and> GetSectionNamesT env st buf nSize None = (0, buf, SetLastError st ERROR_FILE_NOT_FOUND)
       \<and> GetSectionT env st appName buf nSize None = (0, buf, SetLastError st ERROR_FILE_NOT_FOUND)
       \<and> WriteStringToMemoryFile env st appName keyName str None =
           (False, SetLastError st ERROR_FILE_NOT_FOUND)
       \<and> (\<not> IsOptionEnabled st NativeWrite \<longrightarrow>
            WriteStringT env st appName keyName str None = (False, SetLastError st ERROR_FILE_NOT_FOUND))
       \<and> (buf = None \<or> nSize < 2 \<longrightarrow>
            GetStringT env st appName keyName dflt buf nSize (Some f) =
              (0, buf, SetLastError st ERROR_INSUFFICIENT_BUFFER)
          \<and> GetSectionNamesT env st buf nSize (Some f) =
              (0, buf, SetLastError st ERROR_INSUFFICIENT_BUFFER)
          \<and> GetSectionT env st (Some app) buf nSize (Some f) =
              (0, buf, SetLastError st ERROR_INSUFFICIENT_BUFFER))
       \<and> m_INIMap (SetLastError st e) = m_INIMap st
       \<and> SavedFiles (SetLastError st e) = SavedFiles st
       \<and> NativeCalls (SetLastError st e) = NativeCalls st"
proof -
  have "\<not> IsOptionEnabled st NativeWrite \<Longrightarrow>
          WriteStringT env st appName keyName str None = (False, SetLastError st ERROR_FILE_NOT_FOUND)"
    by (simp add: WriteStringT_def null_path IsOptionEnabled_def SetLastError_frame)
  then show ?thesis
    by (simp add: null_path bad_buffer SetLastError_frame)
qed

theorem handlers_validate_arguments_witness:
  "\<not> IsOptionEnabled (InitialRedirector :: char16 RedirectorInterface) NativeWrite
   \<and> ((None :: char16 list option) = None \<or> (1::nat) < 2)
   \<and> WriteStringT WideCollaborators InitialRedirector (Some [83]) (Some [75]) (Some [120]) None =
       (False, SetLastError InitialRedirector ERROR_FILE_NOT_FOUND)
   \<and> GetStringT WideCollaborators InitialRedirector (Some [83]) (Some [75]) None None 1 (Some [112]) =
       (0, None, SetLastError InitialRedirector ERROR_INSUFFICIENT_BUFFER)
   \<and> GetSectionT WideCollaborators InitialRedirector (Some [83]) None 1 (Some [112]) =
       (0, None, SetLastError InitialRedirector ERROR_INSUFFICIENT_BUFFER)"
proof -
  have n: "\<not> IsOptionEnabled (InitialRedirector :: char16 RedirectorInterface) NativeWrite"
    by (simp add: IsOptionEnabled_def InitialRedirector_def)
  show ?thesis
    using handlers_validate_arguments [where env = WideCollaborators and st = InitialRedirector
        and appName = "Some [83]" and keyName = "Some [75]" and str = "Some [120]" and dflt = None
        and buf = None and nSize = 1 and f = "[112]" and app = "[83]" and d = 0 and e = 0] n
    by auto
qed

text \<open>
  Claim C9 as stated fails for \<open>GetSectionT\<close>: with a file path, a null section and a
  null buffer the error code is \<open>ERROR_INVALID_PARAMETER\<close>, the check of the section
  coming before the check of the buffer.
\<close>

theorem GetSectionT_null_section_counterexample:
  "\<not> LastError (snd (snd (GetSectionT WideCollaborators InitialRedirector None None 0 (Some [112])))) =
       ERROR_INSUFFICIENT_BUFFER"
  by (simp add: GetSectionT_def SetLastError_def ERROR_INVALID_PARAMETER_def
      ERROR_INSUFFICIENT_BUFFER_def)

section \<open>Native write passthrough\<close>

lemma GetOrLoadFile_frame:
  assumes "GetOrLoadFile env st path = (p, obj, st1)"
  shows "m_Options st1 = m_Options st" and "NativeCalls st1 = NativeCalls st"
    and "SavedFiles st1 = SavedFiles st" and "LastError st1 = LastError st"
    and "m_INIMap st1 p = Some obj" and "p = NormalizePath env path"
  using assms by (auto simp: GetOrLoadFile_def Let_def split: option.splits)

lemma OnWrite_frame:
  assumes "OnWrite env st obj = (obj', st')"
  shows "m_Options st' = m_Options st" and "NativeCalls st' = NativeCalls st"
    and "m_INIMap st' = m_INIMap st" and "m_INI obj' = m_INI obj" and "LastError st' = LastError st"
  using assms by (auto simp: OnWrite_def SaveFile_def split: if_splits)

lemma StoreObject_frame:
  "m_Options (StoreObject p (obj, st)) = m_Options st"
  "NativeCalls (StoreObject p (obj, st)) = NativeCalls st"
  "SavedFiles (StoreObject p (obj, st)) = SavedFiles st"
  "LastError (StoreObject p (obj, st)) = LastError st"
  "m_INIMap (StoreObject p (obj, st)) = (m_INIMap st)(p \<mapsto> obj)"
  by (simp_all add: StoreObject_def)

lemma StoreObject_OnWrite_frame:
  "m_Options (StoreObject p (OnWrite env st obj)) = m_Options st"
  "NativeCalls (StoreObject p (OnWrite env st obj)) = NativeCalls st"
  by (cases "OnWrite env st obj"; simp add: StoreObject_frame OnWrite_frame)+

lemma WriteStringToMemoryFile_frame:
  "m_Options (snd (WriteStringToMemoryFile env st appName keyName lpString lpFileName)) = m_Options st"
  "NativeCalls (snd (WriteStringToMemoryFile env st appName keyName lpString lpFileName)) = NativeCalls st"
  by (auto simp: WriteStringToMemoryFile_def SetLastError_frame StoreObject_frame
      StoreObject_OnWrite_frame GetOrLoadFile_frame split: option.splits prod.splits)

text \<open>
  Claim C7. With \<open>NativeWrite\<close> enabled \<open>WriteStringT\<close> performs the in-memory update,
  then calls the original API once with its own four arguments, and returns the result
  of that call; with \<open>NativeWrite\<close> disabled it makes no such call and returns the
  result of the in-memory update.
\<close>

theorem WriteStringT_native_write:
  "WriteStringT env st appName keyName lpString lpFileName =
     (if IsOptionEnabled st NativeWrite
        then (InvokeTarget env appName keyName lpString lpFileName,
              (snd (WriteStringToMemoryFile env st appName keyName lpString lpFileName))
                \<lparr>NativeCalls := NativeCalls st @ [(appName, keyName, lpString, lpFileName)]\<rparr>)
      else WriteStringToMemoryFile env st appName keyName lpString lpFileName)
   \<and> NativeCalls (snd (WriteStringToMemoryFile env st appName keyName lpString lpFileName)) =
       NativeCalls st"
proof -
  obtain ok st1 where w: "WriteStringToMemoryFile env st appName keyName lpString lpFileName = (ok, st1)"
    by (cases "WriteStringToMemoryFile env st appName keyName lpString lpFileName")
  have "m_Options st1 = m_Options st" and "NativeCalls st1 = NativeCalls st"
    using WriteStringToMemoryFile_frame [of env st appName keyName lpString lpFileName] w by simp_all
  then show ?thesis
    by (simp add: WriteStringT_def w IsOptionEnabled_def)
qed

lemma WriteStringToMemoryFile_example:
  "fst (WriteStringToMemoryFile (WideCollaborators\<lparr>InvokeTarget := \<lambda>a k v f. False\<rparr>)
          (InitialRedirector\<lparr>m_Options := {NativeWrite}\<rparr>)
          (Some [83]) (Some [75]) (Some [120]) (Some [112]))"
  by (simp add: WriteStringToMemoryFile_def GetOrLoadFile_def LoadFile_def Let_def
      WideCollaborators_def InitialRedirector_def c_str_def SetValue_def QueryValue_def ExampleINI_def)

theorem WriteStringT_native_write_witness:
  "IsOptionEnabled (InitialRedirector\<lparr>m_Options := {NativeWrite}\<rparr> :: char16 RedirectorInterface) NativeWrite
   \<and> fst (WriteStringToMemoryFile (WideCollaborators\<lparr>InvokeTarget := \<lambda>a k v f. False\<rparr>)
          (InitialRedirector\<lparr>m_Options := {NativeWrite}\<rparr>)
          (Some [83]) (Some [75]) (Some [120]) (Some [112]))
   \<and> \<not> fst (WriteStringT (WideCollaborators\<lparr>InvokeTarget := \<lambda>a k v f. False\<rparr>)
          (InitialRedirector\<lparr>m_Options := {NativeWrite}\<rparr>)
          (Some [83]) (Some [75]) (Some [120]) (Some [112]))"
proof -
  have n: "IsOptionEnabled (InitialRedirector\<lparr>m_Options := {NativeWrite}\<rparr> :: char16 RedirectorInterface)
             NativeWrite"
    by (simp add: IsOptionEnabled_def)
  show ?thesis
    using WriteStringT_native_write [where env = "WideCollaborators\<lparr>InvokeTarget := \<lambda>a k v f. False\<rparr>"
        and st = "InitialRedirector\<lparr>m_Options := {NativeWrite}\<rparr>" and appName = "Some [83]"
        and keyName = "Some [75]" and lpString = "Some [120]" and lpFileName = "Some [112]"]
      n WriteStringToMemoryFile_example
    by simp
qed

section \<open>Writing: deleting a section, deleting a key, setting a value\<close>

lemma QueryValue_SetValue:
  "QueryValue (snd (snd (SetValue ini s k v))) s' k' =
     (if s' = s \<and> k' = k then Some v else QueryValue ini s' k')"
  by (auto simp: SetValue_def QueryValue_def update_conv' split: option.splits)


lemma SetValue_ok: "fst (SetValue ini s k v)"
  by (simp add: SetValue_def)

lemma QueryValue_DeleteSection:
  "QueryValue (snd (DeleteSection ini s)) s' k' = (if s' = s then None else QueryValue ini s' k')"
  by (auto simp: DeleteSection_def QueryValue_def delete_conv' split: option.splits)

lemma DeleteSection_ok: "fst (DeleteSection ini s) \<longleftrightarrow> s \<in> set (GetSectionNames ini)"
proof (cases "map_of ini s")
  case None
  then have "s \<notin> fst ` set ini"
    by (simp add: map_of_eq_None_iff)
  then show ?thesis
    using None by (simp add: DeleteSection_def GetSectionNames_def)
next
  case (Some kvs)
  then have "s \<in> fst ` set ini"
    by (metis map_of_eq_None_iff option.distinct(1))
  then show ?thesis
    using Some by (simp add: DeleteSection_def GetSectionNames_def)
qed

lemma GetSectionNames_DeleteSection:
  "s \<notin> set (GetSectionNames (snd (DeleteSection ini s)))"
proof (cases "map_of ini s")
  case None
  then have "s \<notin> fst ` set ini"
    by (simp add: map_of_eq_None_iff)
  then show ?thesis
    using None by (simp add: DeleteSection_def GetSectionNames_def)
next
  case (Some kvs)
  then show ?thesis
    by (simp add: DeleteSection_def GetSectionNames_def delete_keys)
qed

lemma QueryValue_DeleteKey:
  "QueryValue (snd (DeleteKey ini s k)) s' k' =
     (if s' = s \<and> k' = k then None else QueryValue ini s' k')"
  by (auto simp: DeleteKey_def QueryValue_def update_conv' delete_conv' split: option.splits)

lemma DeleteKey_ok: "fst (DeleteKey ini s k) \<longleftrightarrow> QueryValue ini s k \<noteq> None"
  by (auto simp: DeleteKey_def QueryValue_def split: option.splits)

lemma CachedINI_cached:
  "m_INIMap st (NormalizePath env (EncodingTo env (c_str f))) = Some obj \<Longrightarrow>
     CachedINI env st f = m_INI obj \<and> AfterLoad env st f = st"
  by (simp add: CachedINI_def AfterLoad_def GetOrLoadFile_def Let_def)

lemma CachedINI_StoreObject:
  assumes "p = NormalizePath env (EncodingTo env (c_str f))"
  shows "CachedINI env (StoreObject p (obj, st)) f = m_INI obj"
    and "AfterLoad env (StoreObject p (obj, st)) f = StoreObject p (obj, st)"
  using assms CachedINI_cached [of "StoreObject p (obj, st)" env f obj]
  by (simp_all add: StoreObject_frame)

lemma CachedINI_StoreObject_OnWrite:
  assumes "p = NormalizePath env (EncodingTo env (c_str f))"
  shows "CachedINI env (StoreObject p (OnWrite env st obj)) f = m_INI obj"
    and "AfterLoad env (StoreObject p (OnWrite env st obj)) f = StoreObject p (OnWrite env st obj)"
  using assms by (cases "OnWrite env st obj"; simp add: CachedINI_StoreObject OnWrite_frame)+

lemma WriteStringToMemoryFile_doc:
  assumes "WriteStringToMemoryFile env st (Some app) keyName lpString (Some f) = (ok, st')"
  shows "(ok, CachedINI env st' f) =
           (case keyName of
              None \<Rightarrow> DeleteSection (CachedINI env st f) (EncodingTo env (c_str app))
            | Some key \<Rightarrow>
                (case lpString of
                   None \<Rightarrow> DeleteKey (CachedINI env st f) (EncodingTo env (c_str app))
                             (EncodingTo env (c_str key))
                 | Some str \<Rightarrow>
                     (case SetValue (CachedINI env st f) (ToString env (c_str app))
                             (ToString env (c_str key)) (EncodingTo env (c_str str)) of
                        (ok, isSameData, ini') \<Rightarrow> (ok, ini'))))"
    and "AfterLoad env st' f = st'"
proof -
  obtain p obj st1 where g: "GetOrLoadFile env st (EncodingTo env (c_str f)) = (p, obj, st1)"
    by (cases "GetOrLoadFile env st (EncodingTo env (c_str f))")
  then have p: "p = NormalizePath env (EncodingTo env (c_str f))"
    by (rule GetOrLoadFile_frame)
  have c: "CachedINI env st f = m_INI obj"
    using g by (simp add: CachedINI_def)
  show "(ok, CachedINI env st' f) =
           (case keyName of
              None \<Rightarrow> DeleteSection (CachedINI env st f) (EncodingTo env (c_str app))
            | Some key \<Rightarrow>
                (case lpString of
                   None \<Rightarrow> DeleteKey (CachedINI env st f) (EncodingTo env (c_str app))
                             (EncodingTo env (c_str key))
                 | Some str \<Rightarrow>
                     (case SetValue (CachedINI env st f) (ToString env (c_str app))
                             (ToString env (c_str key)) (EncodingTo env (c_str str)) of
                        (ok, isSameData, ini') \<Rightarrow> (ok, ini'))))"
    using assms g
    by (auto simp: WriteStringToMemoryFile_def c CachedINI_StoreObject [OF p]
        CachedINI_StoreObject_OnWrite [OF p] split: option.splits prod.splits if_splits)
  show "AfterLoad env st' f = st'"
    using assms g
    by (auto simp: WriteStringToMemoryFile_def c CachedINI_StoreObject [OF p]
        CachedINI_StoreObject_OnWrite [OF p] split: option.splits prod.splits if_splits)
qed

lemma CachedINI_NativeCalls:
  "CachedINI env (st\<lparr>NativeCalls := n\<rparr>) f = CachedINI env st f"
  by (simp add: CachedINI_def GetOrLoadFile_def Let_def split: option.splits)

lemma AfterLoad_NativeCalls:
  assumes "AfterLoad env st f = st"
  shows "AfterLoad env (st\<lparr>NativeCalls := n\<rparr>) f = st\<lparr>NativeCalls := n\<rparr>"
proof (cases "m_INIMap st (NormalizePath env (EncodingTo env (c_str f)))")
  case None
  then have "m_INIMap (AfterLoad env st f) (NormalizePath env (EncodingTo env (c_str f))) \<noteq> None"
    by (simp add: AfterLoad_def GetOrLoadFile_def Let_def)
  then show ?thesis
    using assms None by simp
next
  case (Some obj)
  then show ?thesis
    by (simp add: AfterLoad_def GetOrLoadFile_def Let_def)
qed

lemma WriteStringT_doc:
  assumes "WriteStringT env st (Some app) keyName lpString (Some f) = (ok, st')"
  shows "CachedINI env st' f =
           CachedINI env (snd (WriteStringToMemoryFile env st (Some app) keyName lpString (Some f))) f"
    and "\<not> IsOptionEnabled st NativeWrite \<Longrightarrow>
           ok = fst (WriteStringToMemoryFile env st (Some app) keyName lpString (Some f))"
    and "AfterLoad env st' f = st'"
proof -
  obtain ok1 st1 where w: "WriteStringToMemoryFile env st (Some app) keyName lpString (Some f) = (ok1, st1)"
    by (cases "WriteStringToMemoryFile env st (Some app) keyName lpString (Some f)")
  have o: "m_Options st1 = m_Options st"
    using WriteStringToMemoryFile_frame(1) [of env st "Some app" keyName lpString "Some f"] w by simp
  have a: "AfterLoad env st1 f = st1"
    using w by (rule WriteStringToMemoryFile_doc)
  show "CachedINI env st' f =
           CachedINI env (snd (WriteStringToMemoryFile env st (Some app) keyName lpString (Some f))) f"
    using assms w by (auto simp: WriteStringT_def CachedINI_NativeCalls split: if_splits)
  show "\<not> IsOptionEnabled st NativeWrite \<Longrightarrow>
           ok = fst (WriteStringToMemoryFile env st (Some app) keyName lpString (Some f))"
    using assms w o by (auto simp: WriteStringT_def IsOptionEnabled_def split: if_splits)
  show "AfterLoad env st' f = st'"
    using assms w a by (auto simp: WriteStringT_def AfterLoad_NativeCalls split: if_splits)
qed


lemma WriteStringT_effect:
  assumes "WriteStringT env st (Some app) keyName lpString (Some f) = (ok, st')"
  shows "CachedINI env st' f =
           (case keyName of
              None \<Rightarrow> snd (DeleteSection (CachedINI env st f) (EncodingTo env (c_str app)))
            | Some key \<Rightarrow>
                (case lpString of
                   None \<Rightarrow> snd (DeleteKey (CachedINI env st f) (EncodingTo env (c_str app))
                                  (EncodingTo env (c_str key)))
                 | Some str \<Rightarrow>
                     snd (snd (SetValue (CachedINI env st f) (ToString env (c_str app))
                                 (ToString env (c_str key)) (EncodingTo env (c_str str))))))"
    and "\<not> IsOptionEnabled st NativeWrite \<Longrightarrow> ok =
           (case keyName of
              None \<Rightarrow> fst (DeleteSection (CachedINI env st f) (EncodingTo env (c_str app)))
            | Some key \<Rightarrow>
                (case lpString of
                   None \<Rightarrow> fst (DeleteKey (CachedINI env st f) (EncodingTo env (c_str app))
                                  (EncodingTo env (c_str key)))
                 | Some str \<Rightarrow>
                     fst (SetValue (CachedINI env st f) (ToString env (c_str app))
                            (ToString env (c_str key)) (EncodingTo env (c_str str)))))"
proof -
  obtain ok1 st1 where w: "WriteStringToMemoryFile env st (Some app) keyName lpString (Some f) = (ok1, st1)"
    by (cases "WriteStringToMemoryFile env st (Some app) keyName lpString (Some f)")
  have c: "CachedINI env st' f = CachedINI env st1 f"
    using WriteStringT_doc(1) [OF assms] w by simp
  have d: "(ok1, CachedINI env st1 f) =
           (case keyName of
              None \<Rightarrow> DeleteSection (CachedINI env st f) (EncodingTo env (c_str app))
            | Some key \<Rightarrow>
                (case lpString of
                   None \<Rightarrow> DeleteKey (CachedINI env st f) (EncodingTo env (c_str app))
                             (EncodingTo env (c_str key))
                 | Some str \<Rightarrow>
                     (case SetValue (CachedINI env st f) (ToString env (c_str app))
                             (ToString env (c_str key)) (EncodingTo env (c_str str)) of
                        (ok, isSameData, ini') \<Rightarrow> (ok, ini'))))"
    using w by (rule WriteStringToMemoryFile_doc)
  have "CachedINI env st1 f = snd (ok1, CachedINI env st1 f)" and "ok1 = fst (ok1, CachedINI env st1 f)"
    by simp_all
  then have e: "CachedINI env st1 f =
           (case keyName of
              None \<Rightarrow> snd (DeleteSection (CachedINI env st f) (EncodingTo env (c_str app)))
            | Some key \<Rightarrow>
                (case lpString of
                   None \<Rightarrow> snd (DeleteKey (CachedINI env st f) (EncodingTo env (c_str app))
                                  (EncodingTo env (c_str key)))
                 | Some str \<Rightarrow>
                     snd (snd (SetValue (CachedINI env st f) (ToString env (c_str app))
                                 (ToString env (c_str key)) (EncodingTo env (c_str str))))))"
    and o: "ok1 =
           (case keyName of
              None \<Rightarrow> fst (DeleteSection (CachedINI env st f) (EncodingTo env (c_str app)))
            | Some key \<Rightarrow>
                (case lpString of
                   None \<Rightarrow> fst (DeleteKey (CachedINI env st f) (EncodingTo env (c_str app))
                                  (EncodingTo env (c_str key)))
                 | Some str \<Rightarrow>
                     fst (SetValue (CachedINI env st f) (ToString env (c_str app))
                            (ToString env (c_str key)) (EncodingTo env (c_str str)))))"
    unfolding d by (simp_all split: option.splits prod.splits)
  show "CachedINI env st' f =
           (case keyName of
              None \<Rightarrow> snd (DeleteSection (CachedINI env st f) (EncodingTo env (c_str app)))
            | Some key \<Rightarrow>
                (case lpString of
                   None \<Rightarrow> snd (DeleteKey (CachedINI env st f) (EncodingTo env (c_str app))
                                  (EncodingTo env (c_str key)))
                 | Some str \<Rightarrow>
                     snd (snd (SetValue (CachedINI env st f) (ToString env (c_str app))
                                 (ToString env (c_str key)) (EncodingTo env (c_str str))))))"
    using c e by simp
  show "\<not> IsOptionEnabled st NativeWrite \<Longrightarrow> ok =
           (case keyName of
              None \<Rightarrow> fst (DeleteSection (CachedINI env st f) (EncodingTo env (c_str app)))
            | Some key \<Rightarrow>
                (case lpString of
                   None \<Rightarrow> fst (DeleteKey (CachedINI env st f) (EncodingTo env (c_str app))
                                  (EncodingTo env (c_str key)))
                 | Some str \<Rightarrow>
                     fst (SetValue (CachedINI env st f) (ToString env (c_str app))
                            (ToString env (c_str key)) (EncodingTo env (c_str str)))))"
    using WriteStringT_doc(2) [OF assms] w o by simp
qed

text \<open>
  Claim C4. \<open>WriteStringT\<close> with a file path and a section: with a null key the
  section and every key of it are gone afterwards and the other sections are as
  before; with a key
  and a null value that key is gone and every other key, of this and of the other
  sections, keeps its value; with a key and a value that key holds the value and
  every other key keeps its own. The result (with \<open>NativeWrite\<close> off) tells whether
  the section or the key was there to delete, and is true for a value set.
\<close>

theorem WriteStringT_dispatch:
  "(case WriteStringT env st (Some app) None lpString (Some f) of
      (ok, st') \<Rightarrow>
        (\<not> IsOptionEnabled st NativeWrite \<longrightarrow>
           ok = (EncodingTo env (c_str app) \<in> set (GetSectionNames (CachedINI env st f))))
        \<and> EncodingTo env (c_str app) \<notin> set (GetSectionNames (CachedINI env st' f))
        \<and> (\<forall>s k. QueryValue (CachedINI env st' f) s k =
               (if s = EncodingTo env (c_str app) then None
                else QueryValue (CachedINI env st f) s k)))
   \<and> (case WriteStringT env st (Some app) (Some key) None (Some f) of
      (ok, st') \<Rightarrow>
        (\<not> IsOptionEnabled st NativeWrite \<longrightarrow>
           ok = (QueryValue (CachedINI env st f) (EncodingTo env (c_str app))
                   (EncodingTo env (c_str key)) \<noteq> None))
        \<and> (\<forall>s k. QueryValue (CachedINI env st' f) s k =
               (if s = EncodingTo env (c_str app) \<and> k = EncodingTo env (c_str key) then None
                else QueryValue (CachedINI env st f) s k)))
   \<and> (case WriteStringT env st (Some app) (Some key) (Some str) (Some f) of
      (ok, st') \<Rightarrow>
        (\<not> IsOptionEnabled st NativeWrite \<longrightarrow> ok)
        \<and> (\<forall>s k. QueryValue (CachedINI env st' f) s k =
               (if s = ToString env (c_str app) \<and> k = ToString env (c_str key)
                  then Some (EncodingTo env (c_str str))
                else QueryValue (CachedINI env st f) s k)))"
proof (intro conjI)
  show "case WriteStringT env st (Some app) None lpString (Some f) of
      (ok, st') \<Rightarrow>
        (\<not> IsOptionEnabled st NativeWrite \<longrightarrow>
           ok = (EncodingTo env (c_str app) \<in> set (GetSectionNames (CachedINI env st f))))
        \<and> EncodingTo env (c_str app) \<notin> set (GetSectionNames (CachedINI env st' f))
        \<and> (\<forall>s k. QueryValue (CachedINI env st' f) s k =
               (if s = EncodingTo env (c_str app) then None
                else QueryValue (CachedINI env st f) s k))"
  proof (cases "WriteStringT env st (Some app) None lpString (Some f)")
    case (Pair ok st')
    show ?thesis
      using WriteStringT_effect [OF Pair]
      by (simp add: Pair QueryValue_DeleteSection DeleteSection_ok GetSectionNames_DeleteSection)
  qed
  show "case WriteStringT env st (Some app) (Some key) None (Some f) of
      (ok, st') \<Rightarrow>
        (\<not> IsOptionEnabled st NativeWrite \<longrightarrow>
           ok = (QueryValue (CachedINI env st f) (EncodingTo env (c_str app))
                   (EncodingTo env (c_str key)) \<noteq> None))
        \<and> (\<forall>s k. QueryValue (CachedINI env st' f) s k =
               (if s = EncodingTo env (c_str app) \<and> k = EncodingTo env (c_str key) then None
                else QueryValue (CachedINI env st f) s k))"
  proof (cases "WriteStringT env st (Some app) (Some key) None (Some f)")
    case (Pair ok st')
    show ?thesis
      using WriteStringT_effect [OF Pair]
      by (simp add: Pair QueryValue_DeleteKey DeleteKey_ok)
  qed
  show "case WriteStringT env st (Some app) (Some key) (Some str) (Some f) of
      (ok, st') \<Rightarrow>
        (\<not> IsOptionEnabled st NativeWrite \<longrightarrow> ok)
        \<and> (\<forall>s k. QueryValue (CachedINI env st' f) s k =
               (if s = ToString env (c_str app) \<and> k = ToString env (c_str key)
                  then Some (EncodingTo env (c_str str))
                else QueryValue (CachedINI env st f) s k))"
  proof (cases "WriteStringT env st (Some app) (Some key) (Some str) (Some f)")
    case (Pair ok st')
    show ?thesis
      using WriteStringT_effect [OF Pair]
      by (simp add: Pair QueryValue_SetValue SetValue_ok)
  qed
qed


lemma Initial_no_NativeWrite:
  "\<not> IsOptionEnabled (InitialRedirector :: 'c RedirectorInterface) NativeWrite"
  by (simp add: IsOptionEnabled_def InitialRedirector_def)

lemma Example_sibling:
  "QueryValue (CachedINI WideCollaborators InitialRedirector [112]) [83] [74] = Some [120]"
  "QueryValue (CachedINI WideCollaborators InitialRedirector [112]) [83] [75] = Some [104, 101, 108, 108, 111]"
  by (simp_all add: CachedINI_example QueryValue_def ExampleINI_def)

theorem WriteStringT_dispatch_witness:
  "\<not> IsOptionEnabled (InitialRedirector :: char16 RedirectorInterface) NativeWrite
   \<and> (case WriteStringT WideCollaborators InitialRedirector (Some [83]) (Some [75]) None (Some [112]) of
        (ok, st') \<Rightarrow>
          ok \<and> QueryValue (CachedINI WideCollaborators st' [112]) [83] [75] = None
          \<and> QueryValue (CachedINI WideCollaborators st' [112]) [83] [74] = Some [120])"
proof -
  have c: "c_str [83 :: char16] = [83]" "c_str [75 :: char16] = [75]"
    by (simp_all add: c_str_def)
  show ?thesis
    using WriteStringT_dispatch [where env = WideCollaborators and st = InitialRedirector
        and app = "[83]" and key = "[75]" and f = "[112]" and lpString = None and str = "[120]"]
      Initial_no_NativeWrite [where 'c = char16] Example_sibling
    by (auto simp: WideCollaborators_conv c split: prod.splits)
qed

section \<open>Writing the value that is already stored\<close>







section \<open>Writing, then reading\<close>

lemma read_after_write:
  fixes b :: "'c::zero list"
  assumes "2 \<le> nSize" and "nSize \<le> length b" and "nSize < 2 ^ 32"
    and "ToString env (c_str app) = EncodingTo env (c_str app)"
    and "ToString env (c_str key) = EncodingTo env (c_str key)"
    and "length (EncodingFrom env (EncodingTo env (c_str str))) < nSize"
    and "WriteStringT env st (Some app) (Some key) (Some str) (Some f) = (ok, st')"
  shows "GetStringT env st' (Some app) (Some key) dflt (Some b) nSize (Some f) =
           (length (EncodingFrom env (EncodingTo env (c_str str))),
            Some (EncodingFrom env (EncodingTo env (c_str str))
                  @ replicate (nSize - length (EncodingFrom env (EncodingTo env (c_str str)))) 0
                  @ drop nSize b),
            st')"
proof -
  have "CachedINI env st' f =
          snd (snd (SetValue (CachedINI env st f) (ToString env (c_str app))
                      (ToString env (c_str key)) (EncodingTo env (c_str str))))"
    using WriteStringT_effect(1) [OF assms(7)] by simp
  then have q: "QueryValue (CachedINI env st' f) (EncodingTo env (c_str app))
                  (EncodingTo env (c_str key)) = Some (EncodingTo env (c_str str))"
    using assms by (simp add: QueryValue_SetValue)
  have a: "AfterLoad env st' f = st'"
    using assms(7) by (rule WriteStringT_doc)
  show ?thesis
    using GetStringT_found_fits [OF assms(1-3) q assms(6), of dflt] a by simp
qed

text \<open>
  Claim C3, as the code has it. After \<open>WriteStringT\<close> for (section, key, value, path),
  \<open>GetStringT\<close> for the same (section, key, path) with a buffer larger than the value
  returns the length of the value and fills the buffer with the value followed by
  zeros, provided that the encoding conversion gives the value back
  (\<open>EncodingFrom\<close> after \<open>EncodingTo\<close> is the identity on it).

  The statement is about the section and key names that the set-value path, which
  hands \<open>appName\<close> and \<open>keyName\<close> to \<open>SetValue\<close> unconverted (line 455), resolves
  as \<open>EncodingTo\<close> does on the read and delete paths (lines 237, 430, 443). The other
  names are left out: about them the statement neither promises nor denies anything.
\<close>

theorem WriteStringT_GetStringT_round_trip:
  fixes b :: "'c::zero list"
  assumes "2 \<le> nSize" and "nSize \<le> length b" and "nSize < 2 ^ 32"
    and "length (c_str str) < nSize"
    and "ToString env (c_str app) = EncodingTo env (c_str app)"
    and "ToString env (c_str key) = EncodingTo env (c_str key)"
    and "EncodingFrom env (EncodingTo env (c_str str)) = c_str str"
    and "WriteStringT env st (Some app) (Some key) (Some str) (Some f) = (ok, st')"
  shows "GetStringT env st' (Some app) (Some key) dflt (Some b) nSize (Some f) =
           (length (c_str str),
            Some (c_str str @ replicate (nSize - length (c_str str)) 0 @ drop nSize b),
            st')"
  using read_after_write [OF assms(1-3) assms(5-6) _ assms(8), of dflt] assms(4) assms(7)
  by simp

theorem WriteStringT_GetStringT_round_trip_witness:
  "(2::nat) \<le> 3 \<and> 3 \<le> length [1, 1, 1, 1 :: char16] \<and> (3::nat) < 2 ^ 32
   \<and> length (c_str [120 :: char16]) < 3
   \<and> ToString WideCollaborators (c_str [83]) = EncodingTo WideCollaborators (c_str [83])
   \<and> ToString WideCollaborators (c_str [75]) = EncodingTo WideCollaborators (c_str [75])
   \<and> EncodingFrom WideCollaborators (EncodingTo WideCollaborators (c_str [120])) = c_str [120]
   \<and> GetStringT WideCollaborators
         (snd (WriteStringT WideCollaborators InitialRedirector (Some [83]) (Some [75]) (Some [120])
                 (Some [112])))
         (Some [83]) (Some [75]) None (Some [1, 1, 1, 1]) 3 (Some [112]) =
       (1, Some [120, 0, 0, 1],
        snd (WriteStringT WideCollaborators InitialRedirector (Some [83]) (Some [75]) (Some [120])
               (Some [112])))"
proof -
  have c: "c_str [120 :: char16] = [120]"
    by (simp add: c_str_def)
  have r: "[120] @ replicate (3 - length [120 :: char16]) (0 :: char16) @ drop 3 [1, 1, 1, 1] = [120, 0, 0, 1]"
    by (simp add: eval_nat_numeral)
  have w: "WriteStringT WideCollaborators InitialRedirector (Some [83]) (Some [75]) (Some [120]) (Some [112]) =
             (fst (WriteStringT WideCollaborators InitialRedirector (Some [83]) (Some [75]) (Some [120])
                     (Some [112])),
              snd (WriteStringT WideCollaborators InitialRedirector (Some [83]) (Some [75]) (Some [120])
                     (Some [112])))"
    by simp
  show ?thesis
    using WriteStringT_GetStringT_round_trip [where nSize = 3 and b = "[1, 1, 1, 1 :: char16]"
        and env = WideCollaborators and st = InitialRedirector and app = "[83]" and key = "[75]"
        and str = "[120]" and f = "[112]" and dflt = None, OF _ _ _ _ _ _ _ w] r
    by (simp add: WideCollaborators_conv c)
qed

lemma NarrowCollaborators_conv:
  "EncodingTo NarrowCollaborators [83] = [83]" "ToString NarrowCollaborators [83] = [83]"
  "EncodingTo NarrowCollaborators [75] = [75]" "ToString NarrowCollaborators [75] = [75]"
  "EncodingTo NarrowCollaborators [233] = [65533]" "EncodingFrom NarrowCollaborators [65533] = [63]"
  by (simp_all add: NarrowCollaborators_def)

text \<open>
  Claim C3 as stated fails where the conversion loses the value: with the 7-bit code
  page the narrow value of the single byte 233 is stored as U+FFFD and read back as
  the byte 63.
\<close>

theorem round_trip_lossy_conversion_counterexample:
  "fst (WriteStringT NarrowCollaborators InitialRedirector (Some [83]) (Some [75]) (Some [233])
          (Some [112]))
   \<and> fst (snd (GetStringT NarrowCollaborators
          (snd (WriteStringT NarrowCollaborators InitialRedirector (Some [83]) (Some [75]) (Some [233])
                  (Some [112])))
          (Some [83]) (Some [75]) None (Some [1, 1, 1, 1]) 4 (Some [112]))) = Some [63, 0, 0, 0]
   \<and> c_str [63, 0, 0, 0 :: char8] \<noteq> c_str [233]"
proof -
  have c: "c_str [83 :: char8] = [83]" "c_str [75 :: char8] = [75]" "c_str [233 :: char8] = [233]"
    by (simp_all add: c_str_def)
  have w: "WriteStringT NarrowCollaborators InitialRedirector (Some [83]) (Some [75]) (Some [233]) (Some [112]) =
             (fst (WriteStringT NarrowCollaborators InitialRedirector (Some [83]) (Some [75]) (Some [233])
                     (Some [112])),
              snd (WriteStringT NarrowCollaborators InitialRedirector (Some [83]) (Some [75]) (Some [233])
                     (Some [112])))"
    by simp
  have ok: "fst (WriteStringT NarrowCollaborators InitialRedirector (Some [83]) (Some [75]) (Some [233])
                   (Some [112]))"
    using WriteStringT_effect(2) [OF w Initial_no_NativeWrite] by (simp add: SetValue_ok)
  have r: "[63] @ replicate (4 - length [63 :: char8]) (0 :: char8) @ drop 4 [1, 1, 1, 1] = [63, 0, 0, 0]"
    by (simp add: eval_nat_numeral)
  have "GetStringT NarrowCollaborators
          (snd (WriteStringT NarrowCollaborators InitialRedirector (Some [83]) (Some [75]) (Some [233])
                  (Some [112])))
          (Some [83]) (Some [75]) None (Some [1, 1, 1, 1]) 4 (Some [112]) =
        (1, Some [63, 0, 0, 0],
         snd (WriteStringT NarrowCollaborators InitialRedirector (Some [83]) (Some [75]) (Some [233])
                  (Some [112])))"
    using read_after_write [where nSize = 4 and b = "[1, 1, 1, 1 :: char8]"
        and env = NarrowCollaborators and st = InitialRedirector and app = "[83]" and key = "[75]"
        and str = "[233]" and f = "[112]" and dflt = None, OF _ _ _ _ _ _ w] r
    by (simp add: NarrowCollaborators_conv c)
  then show ?thesis
    using ok by (simp add: c_str_def)
qed

section \<open>Enumerating sections and keys\<close>

lemma CreateZSSTRZZ_items_prefix:
  "\<exists>n\<le>length items.
     CreateZSSTRZZ_items (\<lambda>x. Some (g x)) items maxSize buffer count =
       (buffer @ concat (map (\<lambda>x. g x @ [0]) (take n items)), n < length items, count + n)
     \<and> (n < length items \<longrightarrow>
          maxSize < length buffer + length (concat (map (\<lambda>x. g x @ [0]) (take (Suc n) items))) + 1)
     \<and> (length buffer + 1 \<le> maxSize \<longrightarrow>
          length buffer + length (concat (map (\<lambda>x. g x @ [0]) (take n items))) + 1 \<le> maxSize)"
proof (induction items arbitrary: buffer count)
  case Nil
  then show ?case by simp
next
  case (Cons x xs)
  show ?case
  proof (cases "length buffer + length (g x) + 2 > maxSize")
    case True
    then have "CreateZSSTRZZ_items (\<lambda>x. Some (g x)) (x # xs) maxSize buffer count =
                 (buffer @ concat (map (\<lambda>x. g x @ [0]) (take 0 (x # xs))), 0 < length (x # xs), count + 0)"
      by simp
    moreover have "maxSize < length buffer + length (concat (map (\<lambda>x. g x @ [0]) (take (Suc 0) (x # xs)))) + 1"
      using True by simp
    ultimately show ?thesis
      by (intro exI [of _ 0]) simp
  next
    case False
    obtain n where n: "n \<le> length xs"
      and r: "CreateZSSTRZZ_items (\<lambda>x. Some (g x)) xs maxSize (buffer @ g x @ [0]) (count + 1) =
                ((buffer @ g x @ [0]) @ concat (map (\<lambda>x. g x @ [0]) (take n xs)), n < length xs,
                 (count + 1) + n)"
      and o: "n < length xs \<longrightarrow>
                maxSize < length (buffer @ g x @ [0])
                  + length (concat (map (\<lambda>x. g x @ [0]) (take (Suc n) xs))) + 1"
      and l: "length (buffer @ g x @ [0]) + 1 \<le> maxSize \<longrightarrow>
                length (buffer @ g x @ [0]) + length (concat (map (\<lambda>x. g x @ [0]) (take n xs))) + 1
                  \<le> maxSize"
      using Cons.IH [of "buffer @ g x @ [0]" "count + 1"] by blast
    have "CreateZSSTRZZ_items (\<lambda>x. Some (g x)) (x # xs) maxSize buffer count =
            (buffer @ concat (map (\<lambda>x. g x @ [0]) (take (Suc n) (x # xs))), Suc n < length (x # xs),
             count + Suc n)"
      using False r by simp
    moreover have "Suc n < length (x # xs) \<longrightarrow>
            maxSize < length buffer
              + length (concat (map (\<lambda>x. g x @ [0]) (take (Suc (Suc n)) (x # xs)))) + 1"
      using o by (simp add: add.assoc)
    moreover have "length buffer + 1 \<le> maxSize \<longrightarrow>
            length buffer + length (concat (map (\<lambda>x. g x @ [0]) (take (Suc n) (x # xs)))) + 1 \<le> maxSize"
      using l False by simp
    ultimately show ?thesis
      using n by (intro exI [of _ "Suc n"]) simp
  qed
qed

lemma ZSSTRZZ_map: "ZSSTRZZ (map g ys) = concat (map (\<lambda>x. g x @ [0]) ys) @ [0]"
  by (simp add: ZSSTRZZ_def comp_def)

lemma ZSSTRZZ_last: "ZSSTRZZ ys \<noteq> [] \<and> last (ZSSTRZZ ys) = 0"
  by (simp add: ZSSTRZZ_def)

lemma CreateZSSTRZZ_truncated:
  assumes "1 \<le> maxSize" and "maxSize < length (ZSSTRZZ (map g items))"
  shows "\<exists>n<length items.
           CreateZSSTRZZ (\<lambda>x. Some (g x)) items maxSize = (ZSSTRZZ (map g (take n items)), True, n)
         \<and> length (ZSSTRZZ (map g (take n items))) \<le> maxSize
         \<and> maxSize < length (ZSSTRZZ (map g (take (Suc n) items)))"
proof -
  obtain n where n: "n \<le> length items"
    and r: "CreateZSSTRZZ_items (\<lambda>x. Some (g x)) items maxSize [] 0 =
              ([] @ concat (map (\<lambda>x. g x @ [0]) (take n items)), n < length items, 0 + n)"
    and o: "n < length items \<longrightarrow>
              maxSize < length ([] :: 'a list) + length (concat (map (\<lambda>x. g x @ [0]) (take (Suc n) items))) + 1"
    and l: "length ([] :: 'a list) + 1 \<le> maxSize \<longrightarrow>
              length ([] :: 'a list) + length (concat (map (\<lambda>x. g x @ [0]) (take n items))) + 1 \<le> maxSize"
    using CreateZSSTRZZ_items_prefix [of items g maxSize "[]" 0] by blast
  have fit: "length (ZSSTRZZ (map g (take n items))) \<le> maxSize"
    using l assms(1) by (simp add: ZSSTRZZ_map)
  have "n \<noteq> length items"
    using fit assms(2) by auto
  then have less: "n < length items"
    using n by simp
  have "CreateZSSTRZZ (\<lambda>x. Some (g x)) items maxSize = (ZSSTRZZ (map g (take n items)), True, n)"
    using r less by (simp add: CreateZSSTRZZ_def ZSSTRZZ_map)
  moreover have "maxSize < length (ZSSTRZZ (map g (take (Suc n) items)))"
    using o less by (simp add: ZSSTRZZ_map)
  ultimately show ?thesis
    using less fit by blast
qed

lemma ReturnZSSTRZZ_truncated:
  fixes b :: "'c::zero list"
  assumes "2 \<le> nSize" and "nSize \<le> length b" and "nSize < 2 ^ 32"
    and "length zs \<le> nSize" and "zs \<noteq> []" and "last zs = 0"
  shows "ReturnZSSTRZZ (Some b) nSize (zs, True, n) =
           (nSize - 2, Some (zs @ replicate (nSize - length zs) 0 @ drop nSize b))"
proof -
  have d: "DWORD_cast (int nSize - 2) = nSize - 2"
    using assms by (simp add: DWORD_cast_id)
  show ?thesis
  proof (cases "length zs < nSize")
    case True
    then have "StringCopyBuffer (Some b) nSize (Some zs) (length zs) =
                 (S_OK, Some (take (length zs) zs @ replicate (nSize - length zs) 0 @ drop nSize b),
                  length zs)"
      using assms by (intro StringCopyBuffer_room) simp_all
    then show ?thesis
      using d by (simp add: ReturnZSSTRZZ_def)
  next
    case False
    then have e: "length zs = nSize"
      using assms by simp
    have "zs ! (nSize - 1) = 0"
      using assms e by (simp add: last_conv_nth)
    then have "StringCopyBuffer (Some b) nSize (Some zs) nSize =
                 (S_OK, Some (take nSize zs @ drop nSize b), nSize)"
      using assms e by (intro StringCopyBuffer_exact) simp_all
    then show ?thesis
      using d e by (simp add: ReturnZSSTRZZ_def)
  qed
qed

lemma GetStringT_enumerate:
  assumes "2 \<le> nSize" and "keyName = None \<or> appName = None"
  shows "GetStringT env st appName keyName dflt (Some b) nSize (Some f) =
           (case ReturnZSSTRZZ (Some b) nSize
                   (case appName of
                      None \<Rightarrow> GetSectionNamesZSSTRZZ env (CachedINI env st f) nSize
                    | Some app \<Rightarrow>
                        GetKeyNamesZSSTRZZ env (CachedINI env st f) (EncodingTo env (c_str app)) nSize) of
              (result, buf) \<Rightarrow> (result, buf, AfterLoad env st f))"
  using assms
  by (auto simp: GetStringT_def CachedINI_def AfterLoad_def split: option.splits prod.splits)

text \<open>
  Claim C8. \<open>GetStringT\<close> with a null section (all section names) or a null key (all
  key names of the section), when the double-null-terminated list of all names is
  longer than \<open>nSize\<close>: the list built is that of the first \<open>n\<close> names, for the
  \<open>n\<close> where these fit and one name more does not; it is flagged truncated with
  count \<open>n\<close>; the buffer holds it, whole items only and doubly terminated, followed
  by zeros; the handler returns \<open>nSize - 2\<close>.
\<close>

theorem GetStringT_enumeration_truncated:
  fixes b :: "'c::zero list"
  assumes "2 \<le> nSize" and "nSize \<le> length b" and "nSize < 2 ^ 32"
    and "keyName = None \<or> appName = None"
    and "names =
           (case appName of
              None \<Rightarrow> GetSectionNames (CachedINI env st f)
            | Some app \<Rightarrow> GetKeyNames (CachedINI env st f) (EncodingTo env (c_str app)))"
    and "nSize < length (ZSSTRZZ (map (EncodingFrom env) names))"
  shows "\<exists>n<length names.
           (case appName of
              None \<Rightarrow> GetSectionNamesZSSTRZZ env (CachedINI env st f) nSize
            | Some app \<Rightarrow>
                GetKeyNamesZSSTRZZ env (CachedINI env st f) (EncodingTo env (c_str app)) nSize) =
             (ZSSTRZZ (map (EncodingFrom env) (take n names)), True, n)
         \<and> length (ZSSTRZZ (map (EncodingFrom env) (take n names))) \<le> nSize
         \<and> nSize < length (ZSSTRZZ (map (EncodingFrom env) (take (Suc n) names)))
         \<and> GetStringT env st appName keyName dflt (Some b) nSize (Some f) =
             (nSize - 2,
              Some (ZSSTRZZ (map (EncodingFrom env) (take n names))
                    @ replicate (nSize - length (ZSSTRZZ (map (EncodingFrom env) (take n names)))) 0
                    @ drop nSize b),
              AfterLoad env st f)"
proof -
  have c: "(case appName of
              None \<Rightarrow> GetSectionNamesZSSTRZZ env (CachedINI env st f) nSize
            | Some app \<Rightarrow>
                GetKeyNamesZSSTRZZ env (CachedINI env st f) (EncodingTo env (c_str app)) nSize) =
           CreateZSSTRZZ (\<lambda>name. Some (EncodingFrom env name)) names nSize"
    using assms(5) by (simp add: GetSectionNamesZSSTRZZ_def GetKeyNamesZSSTRZZ_def split: option.splits)
  obtain n where n: "n < length names"
    and r: "CreateZSSTRZZ (\<lambda>name. Some (EncodingFrom env name)) names nSize =
              (ZSSTRZZ (map (EncodingFrom env) (take n names)), True, n)"
    and fit: "length (ZSSTRZZ (map (EncodingFrom env) (take n names))) \<le> nSize"
    and over: "nSize < length (ZSSTRZZ (map (EncodingFrom env) (take (Suc n) names)))"
    using CreateZSSTRZZ_truncated [of nSize "EncodingFrom env" names] assms(1) assms(6) by auto
  have "GetStringT env st appName keyName dflt (Some b) nSize (Some f) =
             (nSize - 2,
              Some (ZSSTRZZ (map (EncodingFrom env) (take n names))
                    @ replicate (nSize - length (ZSSTRZZ (map (EncodingFrom env) (take n names)))) 0
                    @ drop nSize b),
              AfterLoad env st f)"
    using ReturnZSSTRZZ_truncated [OF assms(1-3) fit, of n] ZSSTRZZ_last [of "map (EncodingFrom env) (take n names)"]
    by (simp add: GetStringT_enumerate [OF assms(1) assms(4)] c r)
  then show ?thesis
    using n r fit over c by auto
qed


theorem GetStringT_enumeration_truncated_witness:
  "(2::nat) \<le> 4 \<and> 4 \<le> length [1, 1, 1, 1, 1 :: char16] \<and> (4::nat) < 2 ^ 32
   \<and> ((None :: char16 list option) = None \<or> Some [83 :: char16] = None)
   \<and> [[75], [74]] =
       (case Some [83 :: char16] of
          None \<Rightarrow> GetSectionNames (CachedINI WideCollaborators InitialRedirector [112])
        | Some app \<Rightarrow>
            GetKeyNames (CachedINI WideCollaborators InitialRedirector [112])
              (EncodingTo WideCollaborators (c_str app)))
   \<and> 4 < length (ZSSTRZZ (map (EncodingFrom WideCollaborators) [[75], [74]]))
   \<and> GetStringT WideCollaborators InitialRedirector (Some [83]) None None (Some [1, 1, 1, 1, 1]) 4
         (Some [112]) =
       (2, Some [75, 0, 0, 0, 1], AfterLoad WideCollaborators InitialRedirector [112])"
proof -
  have c: "c_str [83 :: char16] = [83]"
    by (simp add: c_str_def)
  have names: "[[75], [74]] =
       (case Some [83 :: char16] of
          None \<Rightarrow> GetSectionNames (CachedINI WideCollaborators InitialRedirector [112])
        | Some app \<Rightarrow>
            GetKeyNames (CachedINI WideCollaborators InitialRedirector [112])
              (EncodingTo WideCollaborators (c_str app)))"
    by (simp add: CachedINI_example GetKeyNames_def ExampleINI_def WideCollaborators_conv c)
  have big: "4 < length (ZSSTRZZ (map (EncodingFrom WideCollaborators) [[75], [74]]))"
    by (simp add: WideCollaborators_conv ZSSTRZZ_def)
  have m: "(None :: char16 list option) = None \<or> Some [83 :: char16] = None"
    by simp
  obtain n where n: "n < length [[75], [74 :: char16]]"
    and over: "4 < length (ZSSTRZZ (map (EncodingFrom WideCollaborators) (take (Suc n) [[75], [74]])))"
    and g: "GetStringT WideCollaborators InitialRedirector (Some [83]) None None (Some [1, 1, 1, 1, 1]) 4
              (Some [112]) =
            (4 - 2,
             Some (ZSSTRZZ (map (EncodingFrom WideCollaborators) (take n [[75], [74]]))
                   @ replicate (4 - length (ZSSTRZZ (map (EncodingFrom WideCollaborators)
                                                      (take n [[75], [74]])))) 0
                   @ drop 4 [1, 1, 1, 1, 1]),
             AfterLoad WideCollaborators InitialRedirector [112])"
    using GetStringT_enumeration_truncated [where nSize = 4 and b = "[1, 1, 1, 1, 1 :: char16]"
        and env = WideCollaborators and st = InitialRedirector and f = "[112]"
        and appName = "Some [83]" and keyName = None and names = "[[75], [74]]" and dflt = None,
        OF _ _ _ m names big]
    by auto
  have "n = 0 \<or> n = 1"
    using n by auto
  moreover have "n \<noteq> 0"
  proof
    assume "n = 0"
    with over show False
      by (simp add: WideCollaborators_conv ZSSTRZZ_def)
  qed
  ultimately have "n = 1"
    by simp
  then have "GetStringT WideCollaborators InitialRedirector (Some [83]) None None (Some [1, 1, 1, 1, 1]) 4
              (Some [112]) =
            (2, Some [75, 0, 0, 0, 1], AfterLoad WideCollaborators InitialRedirector [112])"
    using g by (simp add: WideCollaborators_conv ZSSTRZZ_def eval_nat_numeral)
  then show ?thesis
    using names big by simp
qed

lemma MixedCollaborators_conv:
  "EncodingTo MixedCollaborators [233] = [233]" "ToString MixedCollaborators [233] = [65533]"
  "EncodingTo MixedCollaborators [75] = [75]" "ToString MixedCollaborators [75] = [75]"
  "EncodingTo MixedCollaborators [120] = [120]" "EncodingFrom MixedCollaborators [120] = [120]"
  by (simp_all add: MixedCollaborators_def)

text \<open>
  The names left out, at an example: where the string constructor and the converter
  resolve the section name differently (the byte 233 here), the value that
  \<open>WriteStringT\<close> has set is stored under the one name and looked up by \<open>GetStringT\<close>
  under the other, and the read returns the empty string and 0, although the
  conversion gives the value \<open>x\<close> back.
\<close>

lemma set_value_raw_names_example:
  "fst (WriteStringT MixedCollaborators InitialRedirector (Some [233]) (Some [75]) (Some [120])
          (Some [112]))
   \<and> EncodingFrom MixedCollaborators (EncodingTo MixedCollaborators (c_str [120])) = c_str [120]
   \<and> GetStringT MixedCollaborators
         (snd (WriteStringT MixedCollaborators InitialRedirector (Some [233]) (Some [75]) (Some [120])
                 (Some [112])))
         (Some [233]) (Some [75]) None (Some [1, 1, 1, 1]) 4 (Some [112]) =
       (0, Some [0, 0, 0, 0],
        snd (WriteStringT MixedCollaborators InitialRedirector (Some [233]) (Some [75]) (Some [120])
               (Some [112])))"
proof -
  let ?st' = "snd (WriteStringT MixedCollaborators InitialRedirector (Some [233]) (Some [75]) (Some [120])
                    (Some [112]))"
  have c: "c_str [233 :: char8] = [233]" "c_str [75 :: char8] = [75]" "c_str [120 :: char8] = [120]"
    by (simp_all add: c_str_def)
  have w: "WriteStringT MixedCollaborators InitialRedirector (Some [233]) (Some [75]) (Some [120]) (Some [112]) =
             (fst (WriteStringT MixedCollaborators InitialRedirector (Some [233]) (Some [75]) (Some [120])
                     (Some [112])), ?st')"
    by simp
  have ok: "fst (WriteStringT MixedCollaborators InitialRedirector (Some [233]) (Some [75]) (Some [120])
                   (Some [112]))"
    using WriteStringT_effect(2) [OF w Initial_no_NativeWrite] by (simp add: SetValue_ok)
  have i: "CachedINI MixedCollaborators InitialRedirector [112] = []"
    by (simp add: CachedINI_def GetOrLoadFile_def LoadFile_def Let_def MixedCollaborators_def
        InitialRedirector_def)
  have d: "CachedINI MixedCollaborators ?st' [112] =
          snd (snd (SetValue [] [65533] [75] [120]))"
    using WriteStringT_effect(1) [OF w] by (simp add: c i MixedCollaborators_conv)
  have e: "QueryValue [] [233] [75] = None"
    by (simp add: QueryValue_def)
  have q: "QueryValue (CachedINI MixedCollaborators ?st' [112])
                  (EncodingTo MixedCollaborators (c_str [233])) (EncodingTo MixedCollaborators (c_str [75])) =
                None"
    using d by (simp add: QueryValue_SetValue c MixedCollaborators_conv e)
  have a: "AfterLoad MixedCollaborators ?st' [112] = ?st'"
    using w by (rule WriteStringT_doc)
  have s: "StringCopyBuffer (Some [1, 1, 1, 1 :: char8]) 4 (Some [0]) 1 =
             (S_OK, Some (take 1 [0] @ replicate (4 - 1) 0 @ drop 4 [1, 1, 1, 1]), 1)"
    by (rule StringCopyBuffer_room) simp_all
  have r: "take 1 [0 :: char8] @ replicate (4 - 1) 0 @ drop 4 [1, 1, 1, 1 :: char8] = [0, 0, 0, 0]"
    by (simp add: eval_nat_numeral)
  have "GetStringT MixedCollaborators ?st' (Some [233]) (Some [75]) None (Some [1, 1, 1, 1]) 4 (Some [112]) =
          (0, Some [0, 0, 0, 0], ?st')"
    using GetStringT_not_found(2) [OF q, of 4 "[1, 1, 1, 1]"] s r a by simp
  then show ?thesis
    using ok by (simp add: c MixedCollaborators_conv)
qed

end
